theory Spec2Isabelle
  imports Complex_Main "HOL-Library.Word"
begin

section \<open>Python values and exceptions\<close>

text \<open>
  The module \<open>smote.py\<close> holds two classes: the sampler \<open>SMOTE\<close> and the boosting
  orchestrator \<open>SMOTEBoost\<close>. Feature arrays are lists of rows, every row a list of
  reals; \<open>float64\<close> arithmetic is idealised as arithmetic on \<open>real\<close>. An exception is a
  value of the type \<open>error\<close>: the Python exception class with its message.
\<close>

datatype error =
    ValueError string
  | NameError string
  | IndexError string
  | OverflowError string
  | AttributeError string
  | ZeroDivisionError string
  | NotRepresented string

type_synonym vec = "real list"
type_synonym matrix = "real list list"

text \<open>Elementwise arithmetic of one-dimensional arrays of equal length.\<close>

definition vsub :: "vec \<Rightarrow> vec \<Rightarrow> vec" where
  "vsub a b = map2 (\<lambda>u v. u - v) a b"

definition vadd :: "vec \<Rightarrow> vec \<Rightarrow> vec" where
  "vadd a b = map2 (\<lambda>u v. u + v) a b"

definition smul :: "real \<Rightarrow> vec \<Rightarrow> vec" where
  "smul c a = map (\<lambda>u. c * u) a"

text \<open>
  The second component of \<open>X.shape\<close>. A list of rows does not record the column count
  of an array without rows; the model reads 0 there.
\<close>

definition n_columns :: "matrix \<Rightarrow> nat" where
  "n_columns X = (case X of [] \<Rightarrow> 0 | r # _ \<Rightarrow> length r)"

section \<open>The collaborators of the sampler\<close>

text \<open>
  \<open>np.random\<close> is the process-wide generator of numpy. Its state is a value of type
  \<open>'g\<close>; each draw returns the drawn value and the next state. \<open>np.random.seed(s)\<close> with an
  integer \<open>s\<close> installs a state that depends on \<open>s\<close> alone (\<open>np_seed_int\<close>);
  \<open>np.random.seed(None)\<close> re-seeds from the entropy of the operating system
  (\<open>np_seed_entropy\<close>, a function of the surrounding state). The generator itself is not
  part of the module, so it is a parameter of the model.
\<close>

record 'g np_random_module =
  np_seed_int :: "int \<Rightarrow> 'g"
  np_seed_entropy :: "'g \<Rightarrow> 'g"
  np_randint :: "nat \<Rightarrow> 'g \<Rightarrow> nat \<times> 'g"
  np_choice :: "nat list \<Rightarrow> 'g \<Rightarrow> nat \<times> 'g"
  np_random :: "'g \<Rightarrow> real \<times> 'g"

text \<open>\<open>np.random.seed(seed=random_state)\<close>: an integer seed must lie in \<open>[0, 2 ^ 32)\<close>.\<close>

definition np_seed :: "'g np_random_module \<Rightarrow> int option \<Rightarrow> 'g \<Rightarrow> error + 'g" where
  "np_seed R rs g =
     (case rs of
        None \<Rightarrow> Inr (np_seed_entropy R g)
      | Some s \<Rightarrow>
          if 0 \<le> s \<and> s < 2 ^ 32 then Inr (np_seed_int R s)
          else Inl (ValueError ''Seed must be between 0 and 2**32 - 1''))"

text \<open>
  \<open>sklearn.neighbors.NearestNeighbors\<close>: the constructor takes \<open>n_neighbors\<close>, \<open>fit\<close>
  changes the index and may raise, and \<open>kneighbors\<close> answers, for one query point, the row
  of neighbour indices (\<open>return_distance=False\<close>) or raises.
\<close>

record 'n nearest_neighbors =
  NearestNeighbors :: "int \<Rightarrow> 'n"
  nn_fit :: "'n \<Rightarrow> matrix \<Rightarrow> error option \<times> 'n"
  kneighbors :: "'n \<Rightarrow> vec \<Rightarrow> error + nat list"

section \<open>The sampler: class SMOTE\<close>

text \<open>The attributes that \<open>SMOTE.fit\<close> sets, and the sampler object.\<close>

record 'n smote_model =
  smote_X :: matrix
  n_minority_samples :: nat
  n_features :: nat
  neigh :: 'n

record 'n smote =
  smote_k :: int
  random_state :: "int option"
  fitted :: "'n smote_model option"

text \<open>\<open>SMOTE.__init__(k_neighbors, random_state)\<close>.\<close>

definition smote_init :: "int \<Rightarrow> int option \<Rightarrow> 'n smote" where
  "smote_init k_neighbors rs = \<lparr>smote_k = k_neighbors, random_state = rs, fitted = None\<rparr>"

text \<open>
  \<open>SMOTE.fit(X)\<close>, lines 64 to 79: store the points and their shape, build an index for
  \<open>k + 1\<close> neighbours and fit it on the points. The attributes are assigned before the
  index is fitted, so they are set also when that raises.
\<close>

definition smote_fit ::
  "'n nearest_neighbors \<Rightarrow> 'n smote \<Rightarrow> matrix \<Rightarrow> error option \<times> 'n smote" where
  "smote_fit NN self X =
     (let (r, idx) = nn_fit NN (NearestNeighbors NN (smote_k self + 1)) X
      in (r, self\<lparr>fitted := Some \<lparr>smote_X = X, n_minority_samples = length X,
                                   n_features = n_columns X, neigh = idx\<rparr>\<rparr>))"

text \<open>
  One pass of the loop body of \<open>SMOTE.sample\<close>, lines 50 to 60, returning the row written
  to \<open>S[i, :]\<close>. The draws are made in the order of the source: the base index \<open>j\<close>, the
  neighbour query, the neighbour choice among the row without its first entry
  (\<open>[:, 1:]\<close>), the gap. \<open>randint(0, 0)\<close> and \<open>choice\<close> of an empty array raise
  \<open>ValueError\<close>; an index beyond the stored points raises \<open>IndexError\<close>.
\<close>

definition sample_row ::
  "'g np_random_module \<Rightarrow> 'n nearest_neighbors \<Rightarrow> 'n smote_model \<Rightarrow> 'g
     \<Rightarrow> (error + vec) \<times> 'g" where
  "sample_row R NN m g =
     (let X = smote_X m in
      if X = [] then (Inl (ValueError ''low >= high''), g)
      else
        let (j, g1) = np_randint R (length X) g in
        if length X \<le> j then (Inl (IndexError ''index out of bounds''), g1)
        else
          case kneighbors NN (neigh m) (X ! j) of
            Inl e \<Rightarrow> (Inl e, g1)
          | Inr row \<Rightarrow>
              let nn = tl row in
              if nn = [] then (Inl (ValueError ''a must be non-empty''), g1)
              else
                let (nn_index, g2) = np_choice R nn g1 in
                if length X \<le> nn_index then (Inl (IndexError ''index out of bounds''), g2)
                else
                  let dif = vsub (X ! nn_index) (X ! j);
                      (gap, g3) = np_random R g2
                  in (Inr (vadd (X ! j) (smul gap dif)), g3))"

text \<open>The loop \<open>for i in range(n_samples)\<close> of \<open>SMOTE.sample\<close>, writing row \<open>i\<close> of \<open>S\<close>.\<close>

function sample_loop ::
  "'g np_random_module \<Rightarrow> 'n nearest_neighbors \<Rightarrow> 'n smote_model \<Rightarrow> nat \<Rightarrow> nat
     \<Rightarrow> matrix \<Rightarrow> 'g \<Rightarrow> (error + matrix) \<times> 'g" where
  "sample_loop R NN m i n S g =
     (if i < n then
        (case sample_row R NN m g of
           (Inl e, g') \<Rightarrow> (Inl e, g')
         | (Inr row, g') \<Rightarrow> sample_loop R NN m (Suc i) n (S[i := row]) g')
      else (Inr S, g))"
  by pat_completeness auto
termination
  by (relation "measure (\<lambda>(R, NN, m, i, n, S, g). n - i)") auto

text \<open>
  \<open>SMOTE.sample(n_samples)\<close>, lines 45 to 62. The first statement seeds the global
  generator with \<open>self.random_state\<close>; then \<open>S\<close> is allocated with \<open>n_samples\<close> rows of
  \<open>self.n_features\<close> zeros (an unfitted sampler has no such attribute, a negative
  \<open>n_samples\<close> is refused by \<open>np.zeros\<close>) and the loop fills it.
\<close>

definition sample ::
  "'g np_random_module \<Rightarrow> 'n nearest_neighbors \<Rightarrow> 'n smote \<Rightarrow> int \<Rightarrow> 'g
     \<Rightarrow> (error + matrix) \<times> 'g" where
  "sample R NN self n_samples g =
     (case np_seed R (random_state self) g of
        Inl e \<Rightarrow> (Inl e, g)
      | Inr g0 \<Rightarrow>
          (case fitted self of
             None \<Rightarrow> (Inl (AttributeError ''n_features''), g0)
           | Some m \<Rightarrow>
               if n_samples < 0
               then (Inl (ValueError ''negative dimensions are not allowed''), g0)
               else sample_loop R NN m 0 (nat n_samples)
                      (replicate (nat n_samples) (replicate (n_features m) 0)) g0))"

section \<open>Labels and the int64 label array\<close>

text \<open>
  A class label is a Python number. \<open>y == self.minority_target\<close> compares numerically, so
  the integer 1 and the float 1.0 are the same label.
\<close>

datatype label = PyInt int | PyFloat real

definition label_val :: "label \<Rightarrow> real" where
  "label_val l = (case l of PyInt i \<Rightarrow> real_of_int i | PyFloat r \<Rightarrow> r)"

definition label_eq :: "label \<Rightarrow> label \<Rightarrow> bool" where
  "label_eq a b = (label_val a = label_val b)"

definition int64_range :: "int \<Rightarrow> bool" where
  "int64_range i = (- (2 ^ 63) \<le> i \<and> i < 2 ^ 63)"

text \<open>The C conversion of a float to an integer drops the fractional part.\<close>

definition trunc_toward_zero :: "real \<Rightarrow> int" where
  "trunc_toward_zero r = (if 0 \<le> r then \<lfloor>r\<rfloor> else \<lceil>r\<rceil>)"

text \<open>
  The conversion of one fill value to \<open>np.int64\<close>, as \<open>np.full\<close> does it: the fill value
  becomes an array of its own type, which is then cast to \<open>int64\<close> with \<open>casting='unsafe'\<close>.
  The module imports \<open>sklearn.ensemble.forest\<close> and \<open>sklearn.tree.tree\<close>, which exist only
  in releases of scikit-learn that run on numpy 1.x, so the typing of numpy 1.x applies.
  A Python integer in the 64-bit signed range is typed \<open>int64\<close> and keeps its value. A Python
  integer from \<open>2 ^ 63\<close> up to \<open>2 ^ 64 - 1\<close> is typed \<open>uint64\<close>, and the cast keeps its 64
  bits: it wraps to the value minus \<open>2 ^ 64\<close> and nothing is raised. Any other Python integer
  is held as an object, whose conversion raises \<open>OverflowError\<close>. A float is truncated; the
  result for a float whose truncation is outside the range depends on the platform and is
  the parameter \<open>oor\<close>.
\<close>

definition uint64_only_range :: "int \<Rightarrow> bool" where
  "uint64_only_range i = (2 ^ 63 \<le> i \<and> i < 2 ^ 64)"

definition to_int64 :: "(real \<Rightarrow> 64 word) \<Rightarrow> label \<Rightarrow> error + 64 word" where
  "to_int64 oor l =
     (case l of
        PyInt i \<Rightarrow>
          if int64_range i then Inr (word_of_int i)
          else if uint64_only_range i then Inr (word_of_int i)
          else Inl (OverflowError ''Python int too large to convert to C long'')
      | PyFloat r \<Rightarrow>
          if int64_range (trunc_toward_zero r) then Inr (word_of_int (trunc_toward_zero r))
          else Inr (oor r))"

text \<open>
  \<open>np.full(n, fill_value=v, dtype=np.int64)\<close>: the fill value is converted for the
  elements of the new array, so an array without elements converts nothing.
\<close>

definition np_full_int64 :: "(real \<Rightarrow> 64 word) \<Rightarrow> nat \<Rightarrow> label \<Rightarrow> error + 64 word list" where
  "np_full_int64 oor n v =
     (if n = 0 then Inr []
      else case to_int64 oor v of Inl e \<Rightarrow> Inl e | Inr w \<Rightarrow> Inr (replicate n w))"

text \<open>An element of the int64 array read back as a label (\<open>np.append(y, y_syn)\<close>).\<close>

definition int64_label :: "64 word \<Rightarrow> label" where
  "int64_label w = PyInt (sint w)"

section \<open>Validation, initial weights and the minority class\<close>

text \<open>
  \<open>check_X_y\<close> of scikit-learn, as far as lists of rows can express it: it refuses an
  array without samples or without features, rows of unequal length, and a label array
  whose length differs from the number of samples; otherwise it returns both arrays.
\<close>

definition check_X_y :: "matrix \<Rightarrow> label list \<Rightarrow> error + (matrix \<times> label list)" where
  "check_X_y X y =
     (if X = [] then Inl (ValueError ''Found array with 0 sample(s)'')
      else if n_columns X = 0 then Inl (ValueError ''Found array with 0 feature(s)'')
      else if \<not> list_all (\<lambda>r. length r = n_columns X) X
        then Inl (ValueError ''setting an array element with a sequence.'')
      else if length y \<noteq> length X
        then Inl (ValueError ''Found input variables with inconsistent numbers of samples'')
      else Inr (X, y))"

text \<open>
  Line 175 calls \<open>check_array\<close>, a name that the module neither imports nor defines
  (lines 10 to 12 import \<open>check_random_state\<close>, \<open>check_X_y\<close> and \<open>shuffle\<close>): evaluating it
  raises \<open>NameError\<close>.
\<close>

definition check_array :: "real list \<Rightarrow> error + real list" where
  "check_array w = Inl (NameError ''check_array'')"

text \<open>
  Lines 177 to 183: divide the supplied weights by their sum, then test the sum of the
  quotients. Dividing by a zero sum gives \<open>nan\<close> or \<open>inf\<close> entries, whose sum is \<open>nan\<close>; the
  comparison \<open>nan <= 0\<close> is false and the run goes on with weights that the reals cannot
  express.
\<close>

definition normalize_existing_weights :: "real list \<Rightarrow> error + real list" where
  "normalize_existing_weights w =
     (if sum_list w = 0 then Inl (NotRepresented ''non-finite sample weights'')
      else
        let sample_weight = map (\<lambda>x. x / sum_list w) w in
        if sum_list sample_weight \<le> 0
        then Inl (ValueError
          ''Attempting to fit with a non-positive weighted number of samples.'')
        else Inr sample_weight)"

text \<open>Lines 170 to 183, for a dataset of \<open>N\<close> samples.\<close>

definition initial_weights :: "real list option \<Rightarrow> nat \<Rightarrow> error + real list" where
  "initial_weights sample_weight N =
     (case sample_weight of
        None \<Rightarrow> Inr (replicate N (1 / real N))
      | Some w \<Rightarrow>
          (case check_array w of
             Inl e \<Rightarrow> Inl e
           | Inr w1 \<Rightarrow> normalize_existing_weights w1))"

text \<open>
  \<open>Counter(y)\<close>: the labels in the order of their first occurrence, each with its count.
\<close>

fun count_add :: "label \<Rightarrow> (label \<times> nat) list \<Rightarrow> (label \<times> nat) list" where
  "count_add l [] = [(l, 1)]"
| "count_add l ((k, c) # rest) =
     (if label_eq k l then (k, Suc c) # rest else (k, c) # count_add l rest)"

definition Counter :: "label list \<Rightarrow> (label \<times> nat) list" where
  "Counter y = foldl (\<lambda>c l. count_add l c) [] y"

text \<open>
  \<open>min(stats_c_, key=stats_c_.get)\<close>: the first key, in the order of the counter, whose
  count is minimal; no key at all raises.
\<close>

fun min_by_count :: "(label \<times> nat) list \<Rightarrow> label option" where
  "min_by_count [] = None"
| "min_by_count ((l, c) # rest) =
     Some (fst (foldl (\<lambda>(bl, bc) (k, d). if d < bc then (k, d) else (bl, bc)) (l, c) rest))"

section \<open>The inherited boosting machinery\<close>

text \<open>
  \<open>SMOTEBoost\<close> inherits \<open>_validate_estimator\<close> and \<open>_boost\<close> from \<open>AdaBoostClassifier\<close>.
  One boosting step either signals a stop (it returns \<open>None\<close> for the weights) or returns
  new sample weights, the learner weight and the error.
\<close>

datatype boost_result = Stop | Step "real list" real real

text \<open>
  The collaborators of \<open>SMOTEBoost.fit\<close>. \<open>boost\<close> is \<open>self._boost\<close>: it reads the
  iteration number, the dataset and the weights; it may append to \<open>self.estimators_\<close>, advance
  the random state it is given and the global generator, and raise.
  \<open>check_random_state\<close> turns \<open>self.random_state\<close> into that random state.
\<close>

record ('n, 'e, 'b, 'g) collaborators =
  np :: "'g np_random_module"
  neighbors :: "'n nearest_neighbors"
  float_to_int64_overflow :: "real \<Rightarrow> 64 word"
  validate_estimator :: "error option"
  check_random_state :: "int option \<Rightarrow> error + 'b"
  boost :: "nat \<Rightarrow> matrix \<Rightarrow> label list \<Rightarrow> real list \<Rightarrow> 'e list \<times> 'b \<times> 'g
              \<Rightarrow> (error + boost_result) \<times> 'e list \<times> 'b \<times> 'g"

section \<open>The orchestrator: class SMOTEBoost\<close>

text \<open>
  The object. The attributes that \<open>fit\<close> creates are absent (\<open>None\<close>) on an object that
  was never fitted. The fields \<open>fitted_estimators\<close>, \<open>estimator_weights\<close> and
  \<open>estimator_errors\<close> are the attributes \<open>estimators_\<close>, \<open>estimator_weights_\<close> and
  \<open>estimator_errors_\<close>.
\<close>

record ('n, 'e) smoteboost =
  n_samples :: int
  n_estimators :: int
  learning_rate :: real
  sb_random_state :: "int option"
  smote :: "'n smote"
  minority_target :: "label option"
  fitted_estimators :: "'e list option"
  estimator_weights :: "real list option"
  estimator_errors :: "real list option"

text \<open>\<open>SMOTEBoost.__init__\<close>, lines 104 to 122.\<close>

definition smoteboost_init ::
  "int \<Rightarrow> int \<Rightarrow> int \<Rightarrow> real \<Rightarrow> int option \<Rightarrow> ('n, 'e) smoteboost" where
  "smoteboost_init ns ne k_neighbors lr rs =
     \<lparr>n_samples = ns, n_estimators = ne, learning_rate = lr, sb_random_state = rs,
      smote = smote_init k_neighbors rs, minority_target = None, fitted_estimators = None,
      estimator_weights = None, estimator_errors = None\<rparr>"

text \<open>
  What the loop of \<open>fit\<close> works on: the local variables \<open>X\<close>, \<open>y\<close>, \<open>sample_weight\<close> and
  \<open>random_state\<close>, the attributes of \<open>self\<close> that the loop changes, and the global
  generator.
\<close>

record ('n, 'e, 'b, 'g) fit_state =
  X_cur :: matrix
  y_cur :: "label list"
  sample_weight :: "real list"
  sampler :: "'n smote"
  estimators :: "'e list"
  est_weights :: "real list"
  est_errors :: "real list"
  rnd :: 'b
  np_state :: 'g

text \<open>
  \<open>normalize(w, axis=0, norm='l1')\<close> on one column: divide by the sum of the absolute
  values, a zero sum being replaced by 1. \<open>np.squeeze\<close> turns the column back into a
  vector; a column of a single weight becomes a 0-dimensional array holding that weight,
  for which the list of length one stands.
\<close>

definition l1_normalize :: "real list \<Rightarrow> real list" where
  "l1_normalize w =
     (let norm = sum_list (map abs w);
          norm1 = (if norm = 0 then 1 else norm)
      in map (\<lambda>x. x / norm1) w)"

text \<open>\<open>X[np.where(y == self.minority_target)]\<close>.\<close>

definition minority_rows :: "matrix \<Rightarrow> label list \<Rightarrow> label \<Rightarrow> matrix" where
  "minority_rows X y t = map fst (filter (\<lambda>(x, l). label_eq l t) (zip X y))"

text \<open>
  The SMOTE step of one iteration, lines 205 to 224: fit the sampler on the minority rows
  of the current dataset, draw \<open>n_samples\<close> synthetic rows, label them, give each the weight
  \<open>1 / X.shape[0]\<close>, append rows, labels and weights, and normalise the weights.
\<close>

definition smote_step ::
  "('n, 'e, 'b, 'g) collaborators \<Rightarrow> int \<Rightarrow> label \<Rightarrow> ('n, 'e, 'b, 'g) fit_state
     \<Rightarrow> error option \<times> ('n, 'e, 'b, 'g) fit_state" where
  "smote_step C ns t st =
     (let X_min = minority_rows (X_cur st) (y_cur st) t;
          (r, sm) = smote_fit (neighbors C) (sampler st) X_min;
          st1 = st\<lparr>sampler := sm\<rparr>
      in case r of
           Some e \<Rightarrow> (Some e, st1)
         | None \<Rightarrow>
             let (rs, g) = sample (np C) (neighbors C) sm ns (np_state st1);
                 st2 = st1\<lparr>np_state := g\<rparr>
             in case rs of
                  Inl e \<Rightarrow> (Some e, st2)
                | Inr X_syn \<Rightarrow>
                    (case np_full_int64 (float_to_int64_overflow C) (length X_syn) t of
                       Inl e \<Rightarrow> (Some e, st2)
                     | Inr y_syn \<Rightarrow>
                         if length (X_cur st2) = 0
                         then (Some (ZeroDivisionError ''float division by zero''), st2)
                         else
                           let sample_weight_syn =
                                 replicate (length X_syn) (1 / real (length (X_cur st2)))
                           in (None, st2\<lparr>X_cur := X_cur st2 @ X_syn,
                                         y_cur := y_cur st2 @ map int64_label y_syn,
                                         sample_weight := l1_normalize
                                           (sample_weight st2 @ sample_weight_syn)\<rparr>)))"

text \<open>How one pass of the loop body ends.\<close>

datatype 's step = Raise error 's | Break 's | Next 's

text \<open>
  The loop body, lines 205 to 255, for iteration \<open>iboost\<close>. After the SMOTE step the
  booster is called. A stop signal breaks the loop before anything is recorded (the
  source's local \<open>sample_weight\<close> is then \<open>None\<close> and never read again; the state keeps the
  weights that were passed to the booster). Otherwise learner weight and error go to slot
  \<open>iboost\<close>; the loop breaks when the error is zero or the new weights sum to at most
  zero; and the new weights are divided by their sum unless this is the last iteration.
\<close>

definition boost_iteration ::
  "('n, 'e, 'b, 'g) collaborators \<Rightarrow> int \<Rightarrow> int \<Rightarrow> label \<Rightarrow> nat
     \<Rightarrow> ('n, 'e, 'b, 'g) fit_state \<Rightarrow> ('n, 'e, 'b, 'g) fit_state step" where
  "boost_iteration C ns ne t iboost st =
     (case smote_step C ns t st of
        (Some e, st1) \<Rightarrow> Raise e st1
      | (None, st1) \<Rightarrow>
          let (r, es, b, g) = boost C iboost (X_cur st1) (y_cur st1) (sample_weight st1)
                                (estimators st1, rnd st1, np_state st1);
              st2 = st1\<lparr>estimators := es, rnd := b, np_state := g\<rparr>
          in case r of
               Inl e \<Rightarrow> Raise e st2
             | Inr Stop \<Rightarrow> Break st2
             | Inr (Step w estimator_weight estimator_error) \<Rightarrow>
                 let st3 = st2\<lparr>sample_weight := w\<rparr> in
                 if length (est_weights st3) \<le> iboost \<or> length (est_errors st3) \<le> iboost
                 then Raise (IndexError ''index out of bounds'') st3
                 else
                   let st4 = st3\<lparr>est_weights := (est_weights st3)[iboost := estimator_weight],
                                 est_errors := (est_errors st3)[iboost := estimator_error]\<rparr>;
                       sample_weight_sum = sum_list w
                   in if estimator_error = 0 then Break st4
                      else if sample_weight_sum \<le> 0 then Break st4
                      else if int iboost < ne - 1
                        then Next (st4\<lparr>sample_weight := map (\<lambda>x. x / sample_weight_sum) w\<rparr>)
                        else Next st4)"

text \<open>How the loop ends: by an exception, by a \<open>break\<close>, or by exhausting its range.\<close>

datatype 's loop_exit = Raised error 's | Stopped 's | Finished 's

fun exit_state :: "'s loop_exit \<Rightarrow> 's" where
  "exit_state (Raised e s) = s"
| "exit_state (Stopped s) = s"
| "exit_state (Finished s) = s"

fun exit_error :: "'s loop_exit \<Rightarrow> error option" where
  "exit_error (Raised e s) = Some e"
| "exit_error (Stopped s) = None"
| "exit_error (Finished s) = None"

text \<open>
  \<open>for iboost in range(lo, hi)\<close> around the loop body. The loop of \<open>fit\<close> is the one
  with \<open>lo = 0\<close> and \<open>hi = n_estimators\<close>; a smaller \<open>hi\<close> gives the state after the first
  \<open>hi\<close> iterations of that loop.
\<close>

function fit_loop ::
  "('n, 'e, 'b, 'g) collaborators \<Rightarrow> int \<Rightarrow> int \<Rightarrow> label \<Rightarrow> nat \<Rightarrow> nat
     \<Rightarrow> ('n, 'e, 'b, 'g) fit_state \<Rightarrow> ('n, 'e, 'b, 'g) fit_state loop_exit" where
  "fit_loop C ns ne t lo hi st =
     (if lo < hi then
        (case boost_iteration C ns ne t lo st of
           Raise e s \<Rightarrow> Raised e s
         | Break s \<Rightarrow> Stopped s
         | Next s \<Rightarrow> fit_loop C ns ne t (Suc lo) hi s)
      else Finished st)"
  by pat_completeness auto
termination
  by (relation "measure (\<lambda>(C, ns, ne, t, lo, hi, st). hi - lo)") auto

text \<open>
  The part of \<open>fit\<close> before the loop, lines 153 to 202. It either raises, leaving the
  object as it is at that point, or yields the object with its fresh ensemble arrays
  together with the minority label and the state on which the loop starts.
\<close>

definition fit_prepare ::
  "('n, 'e, 'b, 'g) collaborators \<Rightarrow> matrix \<Rightarrow> label list \<Rightarrow> real list option
     \<Rightarrow> label option \<Rightarrow> ('n, 'e) smoteboost \<Rightarrow> 'g
     \<Rightarrow> (error \<times> ('n, 'e) smoteboost)
         + (('n, 'e) smoteboost \<times> label \<times> ('n, 'e, 'b, 'g) fit_state)" where
  "fit_prepare C X y sw mt self g =
     (if learning_rate self \<le> 0
      then Inl (ValueError ''learning_rate must be greater than zero'', self)
      else
        case check_X_y X y of
          Inl e \<Rightarrow> Inl (e, self)
        | Inr (X1, y1) \<Rightarrow>
            (case initial_weights sw (length X1) of
               Inl e \<Rightarrow> Inl (e, self)
             | Inr w \<Rightarrow>
                 (case (case mt of None \<Rightarrow> min_by_count (Counter y1) | Some t \<Rightarrow> Some t) of
                    None \<Rightarrow> Inl (ValueError ''min() arg is an empty sequence'', self)
                  | Some t \<Rightarrow>
                      let self1 = self\<lparr>minority_target := Some t\<rparr> in
                      (case validate_estimator C of
                         Some e \<Rightarrow> Inl (e, self1)
                       | None \<Rightarrow>
                           if n_estimators self1 < 0
                           then Inl (ValueError ''negative dimensions are not allowed'',
                                     self1\<lparr>fitted_estimators := Some []\<rparr>)
                           else
                             let n = nat (n_estimators self1);
                                 self2 = self1\<lparr>fitted_estimators := Some [],
                                               estimator_weights := Some (replicate n 0),
                                               estimator_errors := Some (replicate n 1)\<rparr>
                             in (case check_random_state C (sb_random_state self2) of
                                   Inl e \<Rightarrow> Inl (e, self2)
                                 | Inr b \<Rightarrow>
                                     Inr (self2, t,
                                          \<lparr>X_cur = X1, y_cur = y1, sample_weight = w,
                                           sampler = smote self2, estimators = [],
                                           est_weights = replicate n 0,
                                           est_errors = replicate n 1,
                                           rnd = b, np_state = g\<rparr>))))))"

text \<open>The attributes of \<open>self\<close> as the loop leaves them.\<close>

definition store_back ::
  "('n, 'e, 'b, 'g) fit_state \<Rightarrow> ('n, 'e) smoteboost \<Rightarrow> ('n, 'e) smoteboost" where
  "store_back st self =
     self\<lparr>smote := sampler st, fitted_estimators := Some (estimators st),
          estimator_weights := Some (est_weights st),
          estimator_errors := Some (est_errors st)\<rparr>"

text \<open>
  \<open>SMOTEBoost.fit(X, y, sample_weight, minority_target)\<close>: the raised exception, if any,
  the object after the call and the global generator after the call.
\<close>

definition fit ::
  "('n, 'e, 'b, 'g) collaborators \<Rightarrow> matrix \<Rightarrow> label list \<Rightarrow> real list option
     \<Rightarrow> label option \<Rightarrow> ('n, 'e) smoteboost \<Rightarrow> 'g
     \<Rightarrow> error option \<times> ('n, 'e) smoteboost \<times> 'g" where
  "fit C X y sw mt self g =
     (case fit_prepare C X y sw mt self g of
        Inl (e, self1) \<Rightarrow> (Some e, self1, g)
      | Inr (self2, t, st0) \<Rightarrow>
          let ex = fit_loop C (n_samples self2) (n_estimators self2) t 0
                     (nat (n_estimators self2)) st0
          in (exit_error ex, store_back (exit_state ex) self2, np_state (exit_state ex)))"

text \<open>
  Whether a label is the value of some 64-bit signed integer: an integer in the range, or
  a float without fractional part in the range.
\<close>

definition int64_representable :: "label \<Rightarrow> bool" where
  "int64_representable l =
     (case l of
        PyInt i \<Rightarrow> int64_range i
      | PyFloat r \<Rightarrow> r = real_of_int \<lfloor>r\<rfloor> \<and> int64_range \<lfloor>r\<rfloor>)"

section \<open>Reference collaborators for concrete runs\<close>

text \<open>
  A small deterministic generator: the state is a counter, seeding with \<open>s\<close> sets it to
  \<open>s\<close>, and every draw is computed from the counter and advances it by one.
\<close>

definition counter_rng :: "nat np_random_module" where
  "counter_rng =
     \<lparr>np_seed_int = (\<lambda>s. nat s),
      np_seed_entropy = (\<lambda>g. g),
      np_randint = (\<lambda>high g. (g mod high, Suc g)),
      np_choice = (\<lambda>a g. (a ! (g mod length a), Suc g)),
      np_random = (\<lambda>g. (1 / real (g + 2), Suc g))\<rparr>"

text \<open>
  A brute-force neighbour index that behaves as scikit-learn's \<open>NearestNeighbors\<close> does:
  \<open>fit\<close> refuses a non-positive \<open>n_neighbors\<close> and an empty point set and otherwise stores
  the points, whatever their number; \<open>kneighbors\<close> refuses to answer when fewer points are
  stored than \<open>n_neighbors\<close>, and otherwise returns the indices of the \<open>n_neighbors\<close>
  stored points closest to the query, nearest first.
\<close>

definition sq_dist :: "vec \<Rightarrow> vec \<Rightarrow> real" where
  "sq_dist a b = sum_list (map2 (\<lambda>u v. (u - v) * (u - v)) a b)"

record brute_index =
  bi_n_neighbors :: int
  bi_points :: matrix

definition brute_nn :: "brute_index nearest_neighbors" where
  "brute_nn =
     \<lparr>NearestNeighbors = (\<lambda>n. \<lparr>bi_n_neighbors = n, bi_points = []\<rparr>),
      nn_fit = (\<lambda>idx X.
         if bi_n_neighbors idx \<le> 0
         then (Some (ValueError ''Expected n_neighbors > 0''), idx)
         else if X = [] then (Some (ValueError ''Found array with 0 sample(s)''), idx)
         else (None, idx\<lparr>bi_points := X\<rparr>)),
      kneighbors = (\<lambda>idx q.
         if int (length (bi_points idx)) < bi_n_neighbors idx
         then Inl (ValueError ''Expected n_neighbors <= n_samples'')
         else Inr (take (nat (bi_n_neighbors idx))
                     (sort_key (\<lambda>i. sq_dist q (bi_points idx ! i))
                        [0..<length (bi_points idx)])))\<rparr>"

text \<open>
  A booster that follows a script: \<open>f iboost w\<close> is its answer at iteration \<open>iboost\<close> for
  the weights \<open>w\<close>; the learner it appends to the ensemble is the iteration number.
\<close>

definition scripted_boost ::
  "(nat \<Rightarrow> real list \<Rightarrow> boost_result) \<Rightarrow> nat \<Rightarrow> matrix \<Rightarrow> label list \<Rightarrow> real list
     \<Rightarrow> nat list \<times> unit \<times> nat \<Rightarrow> (error + boost_result) \<times> nat list \<times> unit \<times> nat" where
  "scripted_boost f iboost X y w s =
     (case s of (es, b, g) \<Rightarrow> (Inr (f iboost w), es @ [iboost], b, g))"

definition scripted_env ::
  "(nat \<Rightarrow> real list \<Rightarrow> boost_result) \<Rightarrow> (brute_index, nat, unit, nat) collaborators" where
  "scripted_env f =
     \<lparr>np = counter_rng, neighbors = brute_nn, float_to_int64_overflow = (\<lambda>r. 0),
      validate_estimator = None, check_random_state = (\<lambda>rs. Inr ()),
      boost = scripted_boost f\<rparr>"

text \<open>
  The script of the early-stop scenario: every iteration keeps the weights and reports
  learner weight 1 and error 1/4, except iteration \<open>p\<close>, which reports error 0.
\<close>

definition perfect_at :: "nat \<Rightarrow> nat \<Rightarrow> real list \<Rightarrow> boost_result" where
  "perfect_at p i w = Step w 1 (if i = p then 0 else 1 / 4)"

text \<open>The script that signals a stop at iteration \<open>p\<close>.\<close>

definition stop_at :: "nat \<Rightarrow> nat \<Rightarrow> real list \<Rightarrow> boost_result" where
  "stop_at p i w = (if i = p then Stop else Step w 1 (1 / 4))"

text \<open>Four one-dimensional points, three of class 0 and one of class 1.\<close>

definition X4 :: matrix where
  "X4 = [[0], [1], [3], [4]]"

definition y4 :: "label list" where
  "y4 = [PyInt 0, PyInt 0, PyInt 0, PyInt 1]"

text \<open>
  The sampler with \<open>k = 1\<close> and seed 0 after \<open>fit\<close> on three one-dimensional points, and
  the model that this \<open>fit\<close> stores.
\<close>

definition sampler3 :: "brute_index smote" where
  "sampler3 = snd (smote_fit brute_nn (smote_init 1 (Some 0)) [[0], [1], [3]])"

definition model3 :: "brute_index smote_model" where
  "model3 = \<lparr>smote_X = [[0], [1], [3]], n_minority_samples = 3, n_features = 1,
             neigh = \<lparr>bi_n_neighbors = 2, bi_points = [[0], [1], [3]]\<rparr>\<rparr>"

text \<open>
  The state on which the loop of \<open>fit\<close> starts for \<open>X4\<close>, \<open>y4\<close>, no supplied weights,
  five estimators, seed 0 and \<open>k\<close> neighbours, with the global generator in state 7.
\<close>

definition start4 :: "int \<Rightarrow> (brute_index, nat, unit, nat) fit_state" where
  "start4 k =
     \<lparr>X_cur = X4, y_cur = y4, sample_weight = replicate 4 (1 / 4),
      sampler = smote_init k (Some 0), estimators = [],
      est_weights = replicate 5 0, est_errors = replicate 5 1, rnd = (), np_state = 7\<rparr>"

text \<open>
  The same dataset with float labels, two of class 0.5 and two of class 1.5, and the state
  on which the loop starts for it with one neighbour.
\<close>

definition y4f :: "label list" where
  "y4f = [PyFloat (1 / 2), PyFloat (1 / 2), PyFloat (3 / 2), PyFloat (3 / 2)]"

definition start4f :: "(brute_index, nat, unit, nat) fit_state" where
  "start4f = (start4 1)\<lparr>y_cur := y4f\<rparr>"

text \<open>
  The same dataset with the labels 0 and \<open>2 ^ 63\<close>, the second just above the 64-bit
  signed range, and with the labels 0 and \<open>2 ^ 64\<close>, the second above the unsigned range.
\<close>

definition y4big :: "label list" where
  "y4big = [PyInt 0, PyInt 0, PyInt (2 ^ 63), PyInt (2 ^ 63)]"

definition start4big :: "(brute_index, nat, unit, nat) fit_state" where
  "start4big = (start4 1)\<lparr>y_cur := y4big\<rparr>"

definition y4huge :: "label list" where
  "y4huge = [PyInt 0, PyInt 0, PyInt (2 ^ 64), PyInt (2 ^ 64)]"

definition start4huge :: "(brute_index, nat, unit, nat) fit_state" where
  "start4huge = (start4 1)\<lparr>y_cur := y4huge\<rparr>"

text \<open>
  The states of that run, with the script \<open>perfect_at 2\<close> and one synthetic sample per
  iteration, after its first and after its second iteration.
\<close>

definition after1 :: "(brute_index, nat, unit, nat) fit_state" where
  "after1 =
     \<lparr>X_cur = [[0], [1], [3], [4], [1 / 4]],
      y_cur = [PyInt 0, PyInt 0, PyInt 0, PyInt 1, PyInt 0],
      sample_weight = [1 / 5, 1 / 5, 1 / 5, 1 / 5, 1 / 5],
      sampler = sampler3,
      estimators = [0], est_weights = [1, 0, 0, 0, 0],
      est_errors = [1 / 4, 1, 1, 1, 1], rnd = (), np_state = 3\<rparr>"

definition after2 :: "(brute_index, nat, unit, nat) fit_state" where
  "after2 =
     \<lparr>X_cur = [[0], [1], [3], [4], [1 / 4], [1 / 16]],
      y_cur = [PyInt 0, PyInt 0, PyInt 0, PyInt 1, PyInt 0, PyInt 0],
      sample_weight = [1 / 6, 1 / 6, 1 / 6, 1 / 6, 1 / 6, 1 / 6],
      sampler = snd (smote_fit brute_nn sampler3 [[0], [1], [3], [1 / 4]]),
      estimators = [0, 1], est_weights = [1, 1, 0, 0, 0],
      est_errors = [1 / 4, 1 / 4, 1, 1, 1], rnd = (), np_state = 3\<rparr>"

declare sample_loop.simps [simp del]
declare fit_loop.simps [simp del]

section \<open>The sampler's random stream\<close>

lemma sample_ignores_state:
  "random_state self = Some s \<Longrightarrow> 0 \<le> s \<Longrightarrow> s < 2 ^ 32
   \<Longrightarrow> sample R NN self n g = sample R NN self n g'"
  by (simp add: sample_def np_seed_def)

text \<open>
  C1, counterexample. With seed 0, a call \<open>sample(3)\<close> from generator state 5 returns three
  rows and leaves the generator in state 9; the next call \<open>sample(3)\<close>, from state 9, returns
  the same three rows, whereas drawing on from state 9 without seeding gives other rows.
  The stream is restarted by the second call, not continued.
\<close>

theorem sample_restart_counterexample:
  "sample counter_rng brute_nn sampler3 3 5 = (Inr [[1 / 4], [1 / 7], [1 / 10]], 9)
   \<and> sample counter_rng brute_nn sampler3 3 9 = (Inr [[1 / 4], [1 / 7], [1 / 10]], 9)
   \<and> fitted sampler3 = Some model3
   \<and> sample_loop counter_rng brute_nn model3 0 3 (replicate 3 [0]) 9
       = (Inr [[1 / 13], [1 / 16], [1 / 19]], 18)"
  by code_simp

text \<open>
  C1, as amended. The draws of the sampler consume the one global generator, within a row in
  the order base index, neighbour query, neighbour choice, gap; but the generator is seeded
  with \<open>random_state\<close> at the start of every call of \<open>sample\<close>, not once at construction. For
  a fixed valid integer seed the result of \<open>sample(n)\<close> does not depend on the state of the
  generator before the call, so two consecutive calls on the same fitted sampler return
  identical outputs.
\<close>

theorem sample_stream_restarts:
  "(random_state self = Some s \<longrightarrow> 0 \<le> s \<longrightarrow> s < 2 ^ 32 \<longrightarrow>
      sample R NN self n g = sample R NN self n g'
      \<and> (\<forall>S g1. sample R NN self n g = (Inr S, g1) \<longrightarrow> sample R NN self n g1 = (Inr S, g1)))
   \<and> (smote_X m \<noteq> [] \<longrightarrow> np_randint R (length (smote_X m)) h = (j, h1) \<longrightarrow>
        j < length (smote_X m) \<longrightarrow> kneighbors NN (neigh m) (smote_X m ! j) = Inr row \<longrightarrow>
        tl row \<noteq> [] \<longrightarrow> np_choice R (tl row) h1 = (c, h2) \<longrightarrow> c < length (smote_X m) \<longrightarrow>
        np_random R h2 = (gap, h3) \<longrightarrow>
        sample_row R NN m h
          = (Inr (vadd (smote_X m ! j) (smul gap (vsub (smote_X m ! c) (smote_X m ! j)))), h3))"
proof (intro conjI impI allI)
  assume rs: "random_state self = Some s" "0 \<le> s" "s < 2 ^ 32"
  show "sample R NN self n g = sample R NN self n g'"
    using rs by (rule sample_ignores_state)
  fix S g1
  assume "sample R NN self n g = (Inr S, g1)"
  then show "sample R NN self n g1 = (Inr S, g1)"
    using sample_ignores_state [OF rs, of R NN n g1 g] by simp
next
  assume "smote_X m \<noteq> []" "np_randint R (length (smote_X m)) h = (j, h1)"
    "j < length (smote_X m)" "kneighbors NN (neigh m) (smote_X m ! j) = Inr row"
    "tl row \<noteq> []" "np_choice R (tl row) h1 = (c, h2)" "c < length (smote_X m)"
    "np_random R h2 = (gap, h3)"
  then show "sample_row R NN m h
          = (Inr (vadd (smote_X m ! j) (smul gap (vsub (smote_X m ! c) (smote_X m ! j)))), h3)"
    by (simp add: sample_row_def Let_def)
qed

text \<open>The amended C1 at the sampler fitted on three points, seed 0.\<close>

theorem sample_stream_restarts_witness:
  "random_state sampler3 = Some 0
   \<and> sample counter_rng brute_nn sampler3 3 5 = sample counter_rng brute_nn sampler3 3 9
   \<and> sample counter_rng brute_nn sampler3 3 9 = (Inr [[1 / 4], [1 / 7], [1 / 10]], 9)
   \<and> sample_row counter_rng brute_nn model3 0 = (Inr [1 / 4], 3)"
proof -
  have rs: "random_state sampler3 = Some 0" by code_simp
  have first: "sample counter_rng brute_nn sampler3 3 5 = (Inr [[1 / 4], [1 / 7], [1 / 10]], 9)"
    by code_simp
  have rg: "(0::int) \<le> 0" "(0::int) < 2 ^ 32" by simp_all
  have h1: "smote_X model3 \<noteq> []" by code_simp
  have h2: "np_randint counter_rng (length (smote_X model3)) 0 = (0, 1)" by code_simp
  have h3: "0 < length (smote_X model3)" by code_simp
  have h4: "kneighbors brute_nn (neigh model3) (smote_X model3 ! 0) = Inr [0, 1]" by code_simp
  have h5: "tl [0, 1 :: nat] \<noteq> []" by simp
  have h6: "np_choice counter_rng (tl [0, 1]) 1 = (1, 2)" by code_simp
  have h7: "1 < length (smote_X model3)" by code_simp
  have h8: "np_random counter_rng 2 = (1 / 4, 3)" by code_simp
  have v: "vadd (smote_X model3 ! 0) (smul (1 / 4) (vsub (smote_X model3 ! 1) (smote_X model3 ! 0)))
             = [1 / 4]" by code_simp
  note inst = sample_stream_restarts
    [of sampler3 0 counter_rng brute_nn 3 5 9 model3 0 0 1 "[0, 1]" 1 2 "1 / 4" 3]
  from inst rs rg
  have p1: "sample counter_rng brute_nn sampler3 3 5 = sample counter_rng brute_nn sampler3 3 9"
    by blast
  from inst h1 h2 h3 h4 h5 h6 h7 h8
  have p2: "sample_row counter_rng brute_nn model3 0
      = (Inr (vadd (smote_X model3 ! 0)
                (smul (1 / 4) (vsub (smote_X model3 ! 1) (smote_X model3 ! 0)))), 3)"
    by blast
  from p1 [symmetric] first
  have p3: "sample counter_rng brute_nn sampler3 3 9 = (Inr [[1 / 4], [1 / 7], [1 / 10]], 9)"
    by (rule trans)
  from p2 have p4: "sample_row counter_rng brute_nn model3 0 = (Inr [1 / 4], 3)"
    by (simp only: v)
  from rs p1 p3 p4 show ?thesis by blast
qed

section \<open>Size of the minority set\<close>


lemma fit_loop_unfold:
  "lo < hi \<Longrightarrow> fit_loop C ns ne t lo hi st =
     (case boost_iteration C ns ne t lo st of
        Raise e s \<Rightarrow> Raised e s
      | Break s \<Rightarrow> Stopped s
      | Next s \<Rightarrow> fit_loop C ns ne t (Suc lo) hi s)"
  by (subst fit_loop.simps) simp





section \<open>Parameter and weight checks of fit\<close>

text \<open>
  C8. When \<open>learning_rate \<le> 0\<close>, \<open>fit\<close> raises the \<open>ValueError\<close> of line 155 and leaves the
  object and the global generator as they were: no iteration runs and no ensemble attribute
  is created. When \<open>learning_rate > 0\<close> this check does not fire: an error raised before the
  loop is then the error of one of the later statements.
\<close>

theorem fit_learning_rate_check:
  "(learning_rate self \<le> 0 \<longrightarrow>
      fit C X y sw mt self g =
        (Some (ValueError ''learning_rate must be greater than zero''), self, g))
   \<and> (0 < learning_rate self \<longrightarrow>
        (\<forall>e s. fit_prepare C X y sw mt self g = Inl (e, s) \<longrightarrow>
           check_X_y X y = Inl e
           \<or> initial_weights sw (length X) = Inl e
           \<or> e = ValueError ''min() arg is an empty sequence''
           \<or> validate_estimator C = Some e
           \<or> e = ValueError ''negative dimensions are not allowed''
           \<or> check_random_state C (sb_random_state self) = Inl e))"
proof (intro conjI impI allI)
  assume "learning_rate self \<le> 0"
  then show "fit C X y sw mt self g =
        (Some (ValueError ''learning_rate must be greater than zero''), self, g)"
    by (simp add: fit_def fit_prepare_def)
next
  fix e s
  assume lr: "0 < learning_rate self" and p: "fit_prepare C X y sw mt self g = Inl (e, s)"
  have cx: "\<And>X1 y1. check_X_y X y = Inr (X1, y1) \<Longrightarrow> X1 = X"
    by (auto simp: check_X_y_def split: if_splits)
  from lr p show "check_X_y X y = Inl e
           \<or> initial_weights sw (length X) = Inl e
           \<or> e = ValueError ''min() arg is an empty sequence''
           \<or> validate_estimator C = Some e
           \<or> e = ValueError ''negative dimensions are not allowed''
           \<or> check_random_state C (sb_random_state self) = Inl e"
    by (auto simp: fit_prepare_def Let_def dest: cx
             split: sum.splits option.splits if_splits prod.splits)
qed

text \<open>
  C8 at \<open>learning_rate = 0\<close> on a fresh object, whose ensemble attributes stay absent, and at
  \<open>learning_rate = 1\<close> with an empty dataset, where the error comes from \<open>check_X_y\<close>.
\<close>

theorem fit_learning_rate_check_witness:
  "fit (scripted_env (perfect_at 2)) X4 y4 None None (smoteboost_init 1 5 1 0 (Some 0)) 7
     = (Some (ValueError ''learning_rate must be greater than zero''),
        smoteboost_init 1 5 1 0 (Some 0), 7)
   \<and> fitted_estimators (smoteboost_init 1 5 1 0 (Some 0) :: (brute_index, nat) smoteboost) = None
   \<and> fit_prepare (scripted_env (perfect_at 2)) [] y4 None None (smoteboost_init 1 5 1 1 (Some 0)) 7
       = Inl (ValueError ''Found array with 0 sample(s)'', smoteboost_init 1 5 1 1 (Some 0))
   \<and> check_X_y [] y4 = Inl (ValueError ''Found array with 0 sample(s)'')"
proof -
  let ?C = "scripted_env (perfect_at 2)"
  let ?s0 = "smoteboost_init 1 5 1 0 (Some 0) :: (brute_index, nat) smoteboost"
  let ?s1 = "smoteboost_init 1 5 1 1 (Some 0) :: (brute_index, nat) smoteboost"
  have a: "learning_rate ?s0 \<le> 0" by (simp add: smoteboost_init_def)
  have b: "0 < learning_rate ?s1" by (simp add: smoteboost_init_def)
  have c: "fitted_estimators ?s0 = None" by (simp add: smoteboost_init_def)
  have d: "fit_prepare ?C [] y4 None None ?s1 7
             = Inl (ValueError ''Found array with 0 sample(s)'', ?s1)"
    by (simp add: fit_prepare_def smoteboost_init_def check_X_y_def)
  have e: "initial_weights None (length ([] :: matrix))
             \<noteq> Inl (ValueError ''Found array with 0 sample(s)'')"
    by (simp add: initial_weights_def)
  have f: "validate_estimator ?C = None" "check_random_state ?C (sb_random_state ?s1) = Inr ()"
    by (simp_all add: scripted_env_def)
  from fit_learning_rate_check [of ?s0 ?C X4 y4 None None 7] a
  have p1: "fit ?C X4 y4 None None ?s0 7
     = (Some (ValueError ''learning_rate must be greater than zero''), ?s0, 7)" by simp
  from fit_learning_rate_check [of ?s1 ?C "[]" y4 None None 7] b d e f
  have p2: "check_X_y [] y4 = Inl (ValueError ''Found array with 0 sample(s)'')"
    by auto
  from p1 c d p2 show ?thesis by simp
qed

text \<open>
  Lines 177 to 183 test the sum after the division: weights with a negative sum are
  rescaled and accepted.
\<close>

lemma normalize_negative_sum:
  "normalize_existing_weights [- 1, - 1] = Inr [1 / 2, 1 / 2]"
  by (simp add: normalize_existing_weights_def)

lemma fit_supplied_weights:
  "0 < learning_rate self \<Longrightarrow> check_X_y X y = Inr (X1, y1)
   \<Longrightarrow> fit C X y (Some w) mt self g = (Some (NameError ''check_array''), self, g)"
  by (simp add: fit_def fit_prepare_def initial_weights_def check_array_def)

text \<open>
  C2, the code at a failing input. With the weights \<open>[1, 1, 1, 1]\<close> supplied for \<open>X4\<close>,
  \<open>y4\<close>, \<open>fit\<close> raises \<open>NameError\<close> for \<open>check_array\<close> and changes nothing; the claim
  says that these weights are rescaled to sum to 1 and that no error is raised.
\<close>

theorem fit_supplied_weights_name_error:
  "fit (scripted_env (perfect_at 2)) X4 y4 (Some [1, 1, 1, 1]) None
       (smoteboost_init 1 5 1 1 (Some 0)) 7
     = (Some (NameError ''check_array''), smoteboost_init 1 5 1 1 (Some 0), 7)"
  by (simp add: fit_def fit_prepare_def initial_weights_def check_array_def
        smoteboost_init_def check_X_y_def X4_def y4_def n_columns_def)

section \<open>Rows drawn by the sampler\<close>

lemma sample_loop_length:
  "sample_loop R NN m i n S g = (Inr S', g') \<Longrightarrow> length S' = length S"
proof (induction R NN m i n S g rule: sample_loop.induct)
  case (1 R NN m i n S g)
  show ?case
  proof (cases "i < n")
    case True
    with "1.prems" obtain row g1 where
      r: "sample_row R NN m g = (Inr row, g1)" and
      l: "sample_loop R NN m (Suc i) n (S[i := row]) g1 = (Inr S', g')"
      by (subst (asm) sample_loop.simps) (auto split: prod.splits sum.splits)
    from "1.IH" [OF True r [symmetric] refl l] show ?thesis by simp
  next
    case False
    with "1.prems" show ?thesis by (subst (asm) sample_loop.simps) simp
  qed
qed

lemma sample_loop_rows:
  "(\<And>h r h'. sample_row R NN m h = (Inr r, h') \<Longrightarrow> P r)
   \<Longrightarrow> sample_loop R NN m i n S g = (Inr S', g') \<Longrightarrow> n \<le> length S
   \<Longrightarrow> (\<forall>k. i \<le> k \<and> k < n \<longrightarrow> P (S' ! k)) \<and> (\<forall>k < i. S' ! k = S ! k)"
proof (induction R NN m i n S g rule: sample_loop.induct)
  case (1 R NN m i n S g)
  note P' = "1.prems"(1)
  show ?case
  proof (cases "i < n")
    case True
    with "1.prems" obtain row g1 where
      r: "sample_row R NN m g = (Inr row, g1)" and
      l: "sample_loop R NN m (Suc i) n (S[i := row]) g1 = (Inr S', g')"
      by (subst (asm) sample_loop.simps) (auto split: prod.splits sum.splits)
    have len: "n \<le> length (S[i := row])" using "1.prems" by simp
    from "1.IH" [OF True r [symmetric] refl P' l len]
    have ih1: "\<forall>k. Suc i \<le> k \<and> k < n \<longrightarrow> P (S' ! k)"
      and ih2: "\<forall>k < Suc i. S' ! k = S[i := row] ! k" by auto
    from ih2 have "S' ! i = S[i := row] ! i" by simp
    also have "\<dots> = row" using True "1.prems" by simp
    finally have si: "P (S' ! i)" using P' [OF r] by simp
    have a: "\<forall>k. i \<le> k \<and> k < n \<longrightarrow> P (S' ! k)"
    proof (intro allI impI)
      fix k assume k: "i \<le> k \<and> k < n"
      show "P (S' ! k)"
      proof (cases "k = i")
        case True with si show ?thesis by simp
      next
        case False with k ih1 show ?thesis by simp
      qed
    qed
    have b: "\<forall>k < i. S' ! k = S ! k" using ih2 by simp
    from a b show ?thesis by blast
  next
    case False
    with "1.prems" show ?thesis by (subst (asm) sample_loop.simps) auto
  qed
qed

lemma sample_row_form:
  assumes choice: "\<forall>a h. a \<noteq> [] \<longrightarrow> fst (np_choice R a h) \<in> set a"
      and rnd: "\<forall>h. 0 \<le> fst (np_random R h) \<and> fst (np_random R h) < 1"
      and r: "sample_row R NN m g = (Inr v, g')"
  shows "\<exists>j row nb gap. j < length (smote_X m)
           \<and> kneighbors NN (neigh m) (smote_X m ! j) = Inr row
           \<and> nb \<in> set (tl row) \<and> nb < length (smote_X m) \<and> 0 \<le> gap \<and> gap < 1
           \<and> v = vadd (smote_X m ! j) (smul gap (vsub (smote_X m ! nb) (smote_X m ! j)))"
proof -
  obtain j g1 where j: "np_randint R (length (smote_X m)) g = (j, g1)" by (cases "np_randint R (length (smote_X m)) g")
  from r j have jlt: "j < length (smote_X m)"
    by (auto simp: sample_row_def Let_def split: if_splits)
  from r j jlt obtain row where row: "kneighbors NN (neigh m) (smote_X m ! j) = Inr row"
    by (auto simp: sample_row_def Let_def split: if_splits sum.splits)
  from r j jlt row have ne: "tl row \<noteq> []"
    by (auto simp: sample_row_def Let_def split: if_splits)
  obtain nb g2 where nb: "np_choice R (tl row) g1 = (nb, g2)" by (cases "np_choice R (tl row) g1")
  from choice ne nb have nbin: "nb \<in> set (tl row)" by (metis fst_conv)
  from r j jlt row ne nb have nblt: "nb < length (smote_X m)"
    by (auto simp: sample_row_def Let_def split: if_splits)
  obtain gap g3 where gap: "np_random R g2 = (gap, g3)" by (cases "np_random R g2")
  from rnd gap have g01: "0 \<le> gap \<and> gap < 1" by (metis fst_conv)
  from r j jlt row ne nb nblt gap
  have "v = vadd (smote_X m ! j) (smul gap (vsub (smote_X m ! nb) (smote_X m ! j)))"
    by (auto simp: sample_row_def Let_def split: if_splits)
  with jlt row nbin nblt g01 show ?thesis by blast
qed

lemma sample_ok:
  assumes "sample R NN self n g = (Inr S, g')"
  obtains m g0 where "fitted self = Some m" "0 \<le> n" "np_seed R (random_state self) g = Inr g0"
    "sample_loop R NN m 0 (nat n) (replicate (nat n) (replicate (n_features m) 0)) g0 = (Inr S, g')"
  using assms by (auto simp: sample_def split: sum.splits option.splits if_splits)

lemma sample_length:
  "sample R NN self n g = (Inr S, g') \<Longrightarrow> length S = nat n \<and> 0 \<le> n"
  by (erule sample_ok) (auto dest: sample_loop_length)

section \<open>The SMOTE step of one iteration\<close>

lemma np_full_int64_length:
  "np_full_int64 oor n v = Inr ws \<Longrightarrow> length ws = n"
  by (auto simp: np_full_int64_def split: if_splits sum.splits)

lemma np_full_int64_elems:
  "np_full_int64 oor n v = Inr ws \<Longrightarrow> w \<in> set ws \<Longrightarrow> to_int64 oor v = Inr w"
  by (auto simp: np_full_int64_def split: if_splits sum.splits)

lemma smote_step_ok:
  assumes "smote_step C ns t st = (None, st')"
  obtains sm g X_syn ws where
    "smote_fit (neighbors C) (sampler st) (minority_rows (X_cur st) (y_cur st) t) = (None, sm)"
    "sample (np C) (neighbors C) sm ns (np_state st) = (Inr X_syn, g)"
    "np_full_int64 (float_to_int64_overflow C) (length X_syn) t = Inr ws"
    "X_cur st \<noteq> []"
    "st' = st\<lparr>sampler := sm, np_state := g, X_cur := X_cur st @ X_syn,
              y_cur := y_cur st @ map int64_label ws,
              sample_weight := l1_normalize
                (sample_weight st @ replicate (length X_syn) (1 / real (length (X_cur st))))\<rparr>"
  using assms
  by (auto simp: smote_step_def Let_def split: prod.splits option.splits sum.splits if_splits)

lemma smote_step_returns:
  assumes "smote_fit (neighbors C) (sampler st) (minority_rows (X_cur st) (y_cur st) t) = (None, sm)"
    and "sample (np C) (neighbors C) sm ns (np_state st) = (Inr X_syn, g)"
    and "np_full_int64 (float_to_int64_overflow C) (length X_syn) t = Inr ws"
    and "X_cur st \<noteq> []"
  shows "smote_step C ns t st
           = (None, st\<lparr>sampler := sm, np_state := g, X_cur := X_cur st @ X_syn,
                y_cur := y_cur st @ map int64_label ws,
                sample_weight := l1_normalize
                  (sample_weight st @ replicate (length X_syn) (1 / real (length (X_cur st))))\<rparr>)"
  using assms by (simp add: smote_step_def Let_def)

section \<open>Synthetic samples and their labels\<close>

lemma sint_int64:
  "int64_range i \<Longrightarrow> sint (word_of_int i :: 64 word) = i"
  by (simp add: int64_range_def signed_of_int signed_take_bit_int_eq_self)

lemma sint_int64_range: "int64_range (sint (w :: 64 word))"
  using sint_ge [of w] sint_lt [of w] by (simp add: int64_range_def)

lemma trunc_of_int: "trunc_toward_zero (real_of_int i) = i"
  by (simp add: trunc_toward_zero_def)

lemma trunc_integral:
  "real_of_int (trunc_toward_zero r) = r \<longleftrightarrow> r = real_of_int \<lfloor>r\<rfloor>"
proof
  assume a: "real_of_int (trunc_toward_zero r) = r"
  then have "\<lfloor>r\<rfloor> = trunc_toward_zero r" by (metis floor_of_int)
  with a show "r = real_of_int \<lfloor>r\<rfloor>" by simp
next
  assume "r = real_of_int \<lfloor>r\<rfloor>"
  then obtain i where "r = real_of_int i" ..
  then show "real_of_int (trunc_toward_zero r) = r" by (simp add: trunc_of_int)
qed

lemma sint_int64_iff:
  "sint (word_of_int i :: 64 word) = i \<longleftrightarrow> int64_range i"
  using sint_int64 [of i] sint_int64_range [of "word_of_int i"] by auto

lemma to_int64_PyInt:
  assumes "to_int64 oor (PyInt i) = Inr w"
  shows "w = word_of_int i" "int64_range i \<or> uint64_only_range i"
  using assms by (auto simp: to_int64_def split: if_splits)

lemma to_int64_preserves:
  assumes "to_int64 oor l = Inr w"
  shows "label_eq (int64_label w) l \<longleftrightarrow> int64_representable l"
proof (cases l)
  case (PyInt i)
  with assms have w: "w = word_of_int i" by (simp add: to_int64_PyInt)
  have "label_eq (int64_label w) l
          \<longleftrightarrow> real_of_int (sint (word_of_int i :: 64 word)) = real_of_int i"
    unfolding w PyInt label_eq_def label_val_def int64_label_def by (simp only: label.case)
  also have "\<dots> \<longleftrightarrow> sint (word_of_int i :: 64 word) = i" by (rule of_int_eq_iff)
  also have "\<dots> \<longleftrightarrow> int64_range i" by (rule sint_int64_iff)
  also have "\<dots> \<longleftrightarrow> int64_representable l"
    using PyInt by (simp add: int64_representable_def)
  finally show ?thesis .
next
  case (PyFloat r)
  show ?thesis
  proof (cases "int64_range (trunc_toward_zero r)")
    case True
    with assms PyFloat have w: "w = word_of_int (trunc_toward_zero r)"
      by (auto simp: to_int64_def)
    have "label_eq (int64_label w) l \<longleftrightarrow> real_of_int (trunc_toward_zero r) = r"
      using True w PyFloat by (simp add: label_eq_def label_val_def int64_label_def sint_int64)
    also have "\<dots> \<longleftrightarrow> r = real_of_int \<lfloor>r\<rfloor>" by (rule trunc_integral)
    also have "\<dots> \<longleftrightarrow> int64_representable l"
    proof
      assume a: "r = real_of_int \<lfloor>r\<rfloor>"
      then have "trunc_toward_zero r = \<lfloor>r\<rfloor>" by (metis trunc_of_int)
      with True a PyFloat show "int64_representable l" by (simp add: int64_representable_def)
    next
      assume "int64_representable l"
      with PyFloat show "r = real_of_int \<lfloor>r\<rfloor>" by (simp add: int64_representable_def)
    qed
    finally show ?thesis .
  next
    case False
    have n1: "\<not> int64_representable l"
    proof
      assume "int64_representable l"
      with PyFloat have a: "r = real_of_int \<lfloor>r\<rfloor>" and b: "int64_range \<lfloor>r\<rfloor>"
        by (simp_all add: int64_representable_def)
      from a have "trunc_toward_zero r = \<lfloor>r\<rfloor>" by (metis trunc_of_int)
      with b False show False by simp
    qed
    have n2: "\<not> label_eq (int64_label w) l"
    proof
      assume "label_eq (int64_label w) l"
      with PyFloat have "r = real_of_int (sint w)"
        by (simp add: label_eq_def label_val_def int64_label_def)
      then have "trunc_toward_zero r = sint w" by (simp only: trunc_of_int)
      with False sint_int64_range [of w] show False by simp
    qed
    from n1 n2 show ?thesis by simp
  qed
qed

lemma to_int64_fails:
  "to_int64 oor l = Inl e \<Longrightarrow> \<not> int64_representable l"
  by (cases l) (auto simp: to_int64_def int64_representable_def split: if_splits)

lemma smote_step_labels:
  assumes "smote_step C ns t st = (None, st')"
  shows "\<exists>ws. length ws = nat ns \<and> y_cur st' = y_cur st @ map int64_label ws
           \<and> (\<forall>w\<in>set ws. to_int64 (float_to_int64_overflow C) t = Inr w)"
proof -
  from assms obtain sm g X_syn ws where
    s: "sample (np C) (neighbors C) sm ns (np_state st) = (Inr X_syn, g)" and
    f: "np_full_int64 (float_to_int64_overflow C) (length X_syn) t = Inr ws" and
    e: "st' = st\<lparr>sampler := sm, np_state := g, X_cur := X_cur st @ X_syn,
              y_cur := y_cur st @ map int64_label ws,
              sample_weight := l1_normalize
                (sample_weight st @ replicate (length X_syn) (1 / real (length (X_cur st))))\<rparr>"
    by (rule smote_step_ok)
  from s have "length X_syn = nat ns" by (simp add: sample_length)
  with f have l: "length ws = nat ns" by (simp add: np_full_int64_length)
  from e have y: "y_cur st' = y_cur st @ map int64_label ws" by simp
  from f have "\<forall>w\<in>set ws. to_int64 (float_to_int64_overflow C) t = Inr w"
    by (blast dest: np_full_int64_elems)
  with l y show ?thesis by blast
qed

text \<open>
  C4, counterexample. For the dataset with float labels and the minority label 1.5 the
  SMOTE step of an iteration raises nothing and appends one synthetic sample, whose label is
  the integer 1, not the minority class 1.5.
\<close>

theorem synthetic_label_counterexample:
  "fst (smote_step (scripted_env (perfect_at 2)) 1 (PyFloat (3 / 2)) start4f) = None
   \<and> y_cur (snd (smote_step (scripted_env (perfect_at 2)) 1 (PyFloat (3 / 2)) start4f))
       = [PyFloat (1 / 2), PyFloat (1 / 2), PyFloat (3 / 2), PyFloat (3 / 2), PyInt 1]
   \<and> \<not> label_eq (PyInt 1) (PyFloat (3 / 2))"
  by code_simp

text \<open>
  C4, as amended. Given a generator whose \<open>choice\<close> returns an element of its argument and
  whose \<open>random\<close> returns a value in \<open>[0, 1)\<close>, every call \<open>sample(n)\<close> of a fitted sampler
  that returns, returns \<open>n\<close> rows, each equal to \<open>base + gap * (neighbor - base)\<close> for a
  stored point \<open>base\<close>, a stored point \<open>neighbor\<close> whose index is in the answer of the
  neighbour query for \<open>base\<close> without its first entry, and one scalar \<open>gap\<close> in \<open>[0, 1)\<close>
  applied to all features. \<open>sample\<close> returns feature rows only; \<open>SMOTEBoost.fit\<close> labels each
  synthetic sample with the minority label converted to a 64-bit integer, which is the
  minority label when that label is an integer in the 64-bit range.
\<close>

theorem sample_interpolates:
  "((\<forall>a h. a \<noteq> [] \<longrightarrow> fst (np_choice R a h) \<in> set a) \<longrightarrow>
    (\<forall>h. 0 \<le> fst (np_random R h) \<and> fst (np_random R h) < 1) \<longrightarrow>
    fitted self = Some m \<longrightarrow> sample R NN self n g = (Inr S, g') \<longrightarrow>
    length S = nat n \<and>
    (\<forall>i < nat n. \<exists>j row nb gap. j < length (smote_X m)
       \<and> kneighbors NN (neigh m) (smote_X m ! j) = Inr row
       \<and> nb \<in> set (tl row) \<and> nb < length (smote_X m) \<and> 0 \<le> gap \<and> gap < 1
       \<and> S ! i = vadd (smote_X m ! j) (smul gap (vsub (smote_X m ! nb) (smote_X m ! j)))))
   \<and> (smote_step C ns t st = (None, st') \<longrightarrow>
        (\<exists>ws. length ws = nat ns \<and> y_cur st' = y_cur st @ map int64_label ws
           \<and> (\<forall>w\<in>set ws. to_int64 (float_to_int64_overflow C) t = Inr w)
           \<and> (\<forall>i. t = PyInt i \<longrightarrow> int64_range i \<longrightarrow> (\<forall>w\<in>set ws. int64_label w = t))))"
proof (intro conjI impI)
  assume choice: "\<forall>a h. a \<noteq> [] \<longrightarrow> fst (np_choice R a h) \<in> set a"
    and rnd: "\<forall>h. 0 \<le> fst (np_random R h) \<and> fst (np_random R h) < 1"
    and fit: "fitted self = Some m" and run: "sample R NN self n g = (Inr S, g')"
  from run show "length S = nat n" by (simp add: sample_length)
  from run fit obtain g0 where
    l: "sample_loop R NN m 0 (nat n) (replicate (nat n) (replicate (n_features m) 0)) g0
          = (Inr S, g')"
    by (auto elim: sample_ok)
  let ?P = "\<lambda>v. \<exists>j row nb gap. j < length (smote_X m)
       \<and> kneighbors NN (neigh m) (smote_X m ! j) = Inr row
       \<and> nb \<in> set (tl row) \<and> nb < length (smote_X m) \<and> 0 \<le> gap \<and> gap < 1
       \<and> v = vadd (smote_X m ! j) (smul gap (vsub (smote_X m ! nb) (smote_X m ! j)))"
  have P: "\<And>h r h'. sample_row R NN m h = (Inr r, h') \<Longrightarrow> ?P r"
    by (rule sample_row_form [OF choice rnd])
  have "\<forall>k. 0 \<le> k \<and> k < nat n \<longrightarrow> ?P (S ! k)"
    using sample_loop_rows [where P = ?P, OF P l] by simp
  then show "\<forall>i < nat n. ?P (S ! i)" by simp
next
  assume st: "smote_step C ns t st = (None, st')"
  from smote_step_labels [OF st] obtain ws where
    ws: "length ws = nat ns" "y_cur st' = y_cur st @ map int64_label ws"
      "\<forall>w\<in>set ws. to_int64 (float_to_int64_overflow C) t = Inr w" by blast
  have "\<forall>i. t = PyInt i \<longrightarrow> int64_range i \<longrightarrow> (\<forall>w\<in>set ws. int64_label w = t)"
  proof (intro allI impI ballI)
    fix i w assume t: "t = PyInt i" and r: "int64_range i" and w: "w \<in> set ws"
    from ws(3) w t have "to_int64 (float_to_int64_overflow C) (PyInt i) = Inr w" by blast
    then have "w = word_of_int i" by (rule to_int64_PyInt)
    with t r show "int64_label w = t" by (simp add: int64_label_def sint_int64)
  qed
  with ws show "\<exists>ws. length ws = nat ns \<and> y_cur st' = y_cur st @ map int64_label ws
           \<and> (\<forall>w\<in>set ws. to_int64 (float_to_int64_overflow C) t = Inr w)
           \<and> (\<forall>i. t = PyInt i \<longrightarrow> int64_range i \<longrightarrow> (\<forall>w\<in>set ws. int64_label w = t))"
    by blast
qed

text \<open>
  C10. In every iteration whose SMOTE step returns, the labels appended for the synthetic
  samples are the minority label converted to a 64-bit integer, and such a label equals
  the minority label exactly when the minority label is the value of a 64-bit integer: an
  integer label from \<open>2 ^ 63\<close> up to \<open>2 ^ 64 - 1\<close> is appended wrapped, a float label with a
  fractional part is appended truncated, and neither equals the minority label. When the
  conversion raises, the minority label is not such a value, and the SMOTE step of an
  iteration that drew at least one synthetic sample raises that error. Labels are the
  numbers that \<open>minority_target : int\<close> and a numeric label array admit.
\<close>

theorem synthetic_labels_int64:
  "(smote_step C ns t st = (None, st') \<longrightarrow>
      (\<exists>ws. length ws = nat ns \<and> y_cur st' = y_cur st @ map int64_label ws
         \<and> (\<forall>w\<in>set ws. to_int64 (float_to_int64_overflow C) t = Inr w
               \<and> (label_eq (int64_label w) t \<longleftrightarrow> int64_representable t))))
   \<and> (to_int64 (float_to_int64_overflow C) t = Inl e \<longrightarrow>
        \<not> int64_representable t
        \<and> (smote_fit (neighbors C) (sampler st) (minority_rows (X_cur st) (y_cur st) t)
             = (None, sm) \<longrightarrow>
           sample (np C) (neighbors C) sm ns (np_state st) = (Inr X_syn, g) \<longrightarrow>
           X_syn \<noteq> [] \<longrightarrow>
           smote_step C ns t st = (Some e, st\<lparr>sampler := sm, np_state := g\<rparr>)))"
proof (intro conjI impI)
  assume st: "smote_step C ns t st = (None, st')"
  from smote_step_labels [OF st] obtain ws where
    ws: "length ws = nat ns" "y_cur st' = y_cur st @ map int64_label ws"
      "\<forall>w\<in>set ws. to_int64 (float_to_int64_overflow C) t = Inr w" by blast
  from ws(3) have "\<forall>w\<in>set ws. to_int64 (float_to_int64_overflow C) t = Inr w
               \<and> (label_eq (int64_label w) t \<longleftrightarrow> int64_representable t)"
    by (blast dest: to_int64_preserves)
  with ws(1,2) show "\<exists>ws. length ws = nat ns \<and> y_cur st' = y_cur st @ map int64_label ws
         \<and> (\<forall>w\<in>set ws. to_int64 (float_to_int64_overflow C) t = Inr w
               \<and> (label_eq (int64_label w) t \<longleftrightarrow> int64_representable t))" by blast
next
  assume "to_int64 (float_to_int64_overflow C) t = Inl e"
  then show "\<not> int64_representable t" by (rule to_int64_fails)
next
  assume "to_int64 (float_to_int64_overflow C) t = Inl e"
    "smote_fit (neighbors C) (sampler st) (minority_rows (X_cur st) (y_cur st) t) = (None, sm)"
    "sample (np C) (neighbors C) sm ns (np_state st) = (Inr X_syn, g)" "X_syn \<noteq> []"
  then show "smote_step C ns t st = (Some e, st\<lparr>sampler := sm, np_state := g\<rparr>)"
    by (simp add: smote_step_def np_full_int64_def)
qed

lemma counter_rng_choice:
  "\<forall>a h. a \<noteq> [] \<longrightarrow> fst (np_choice counter_rng a h) \<in> set a"
  by (simp add: counter_rng_def)

lemma counter_rng_random:
  "\<forall>h. 0 \<le> fst (np_random counter_rng h) \<and> fst (np_random counter_rng h) < 1"
  by (simp add: counter_rng_def)

text \<open>
  The amended C4 at the sampler fitted on three points and at the first SMOTE step for
  \<open>X4\<close>, \<open>y4\<close> with the minority label 0: three rows are returned, and the synthetic
  sample is labelled 0.
\<close>

theorem sample_interpolates_witness:
  "fitted sampler3 = Some model3
   \<and> sample counter_rng brute_nn sampler3 3 5 = (Inr [[1 / 4], [1 / 7], [1 / 10]], 9)
   \<and> length [[1 / 4], [1 / 7], [1 / 10 :: real]] = nat 3
   \<and> fst (smote_step (scripted_env (perfect_at 2)) 1 (PyInt 0) (start4 1)) = None
   \<and> y_cur (snd (smote_step (scripted_env (perfect_at 2)) 1 (PyInt 0) (start4 1)))
       = y_cur (start4 1) @ [PyInt 0]"
proof -
  let ?E = "scripted_env (perfect_at 2)"
  let ?st' = "snd (smote_step ?E 1 (PyInt 0) (start4 1))"
  have f: "fitted sampler3 = Some model3" by code_simp
  have s: "sample counter_rng brute_nn sampler3 3 5 = (Inr [[1 / 4], [1 / 7], [1 / 10]], 9)"
    by code_simp
  have n: "fst (smote_step ?E 1 (PyInt 0) (start4 1)) = None" by code_simp
  then have st: "smote_step ?E 1 (PyInt 0) (start4 1) = (None, ?st')"
    by (metis prod.collapse)
  have r: "int64_range 0" by (simp add: int64_range_def)
  note inst = sample_interpolates
    [of counter_rng sampler3 model3 brute_nn 3 5 "[[1 / 4], [1 / 7], [1 / 10]]" 9
        ?E 1 "PyInt 0" "start4 1" ?st']
  from inst counter_rng_choice counter_rng_random f s
  have p1: "length [[1 / 4], [1 / 7], [1 / 10 :: real]] = nat 3" by blast
  from inst st obtain ws where
    ws: "length ws = nat 1" "y_cur ?st' = y_cur (start4 1) @ map int64_label ws"
      "\<forall>i. PyInt 0 = PyInt i \<longrightarrow> int64_range i \<longrightarrow> (\<forall>w\<in>set ws. int64_label w = PyInt 0)"
    by blast
  from ws(1) obtain w where w: "ws = [w]" by (cases ws) simp_all
  from ws(3) r w have "int64_label w = PyInt 0" by simp
  with ws(2) w have p2: "y_cur ?st' = y_cur (start4 1) @ [PyInt 0]" by simp
  from f s p1 n p2 show ?thesis by blast
qed

text \<open>
  C10 at four minority labels: the integer 0 is kept, the float 1.5 becomes 1, the integer
  \<open>2 ^ 63\<close> is appended as \<open>- (2 ^ 63)\<close> without any error, and the integer \<open>2 ^ 64\<close> makes
  the SMOTE step raise \<open>OverflowError\<close>.
\<close>

theorem synthetic_labels_int64_witness:
  "fst (smote_step (scripted_env (perfect_at 2)) 1 (PyInt 0) (start4 1)) = None
   \<and> int64_representable (PyInt 0)
   \<and> label_eq (last (y_cur (snd (smote_step (scripted_env (perfect_at 2)) 1 (PyInt 0)
        (start4 1))))) (PyInt 0)
   \<and> fst (smote_step (scripted_env (perfect_at 2)) 1 (PyFloat (3 / 2)) start4f) = None
   \<and> \<not> label_eq (last (y_cur (snd (smote_step (scripted_env (perfect_at 2)) 1
        (PyFloat (3 / 2)) start4f)))) (PyFloat (3 / 2))
   \<and> fst (smote_step (scripted_env (perfect_at 2)) 1 (PyInt (2 ^ 63)) start4big) = None
   \<and> y_cur (snd (smote_step (scripted_env (perfect_at 2)) 1 (PyInt (2 ^ 63)) start4big))
       = y4big @ [PyInt (- (2 ^ 63))]
   \<and> \<not> label_eq (last (y_cur (snd (smote_step (scripted_env (perfect_at 2)) 1
        (PyInt (2 ^ 63)) start4big)))) (PyInt (2 ^ 63))
   \<and> \<not> int64_representable (PyInt (2 ^ 64))
   \<and> smote_step (scripted_env (perfect_at 2)) 1 (PyInt (2 ^ 64)) start4huge
       = (Some (OverflowError ''Python int too large to convert to C long''),
          start4huge\<lparr>sampler := snd (smote_fit brute_nn (smote_init 1 (Some 0)) [[3], [4]]),
                     np_state := 3\<rparr>)"
proof -
  let ?E = "scripted_env (perfect_at 2)"
  let ?a = "snd (smote_step ?E 1 (PyInt 0) (start4 1))"
  let ?b = "snd (smote_step ?E 1 (PyFloat (3 / 2)) start4f)"
  let ?c = "snd (smote_step ?E 1 (PyInt (2 ^ 63)) start4big)"
  let ?sm = "snd (smote_fit brute_nn (smote_init 1 (Some 0)) [[3], [4]])"
  have last_one: "\<And>ys ws. length ws = nat 1 \<Longrightarrow> \<exists>w. ws = [w]"
    by (case_tac ws) simp_all
  have na: "fst (smote_step ?E 1 (PyInt 0) (start4 1)) = None" by code_simp
  then have sa: "smote_step ?E 1 (PyInt 0) (start4 1) = (None, ?a)" by (metis prod.collapse)
  have ra: "int64_representable (PyInt 0)" by (simp add: int64_representable_def int64_range_def)
  from synthetic_labels_int64 [of ?E 1 "PyInt 0" "start4 1" ?a] sa obtain ws where
    wa: "length ws = nat 1" "y_cur ?a = y_cur (start4 1) @ map int64_label ws"
      "\<forall>w\<in>set ws. label_eq (int64_label w) (PyInt 0) \<longleftrightarrow> int64_representable (PyInt 0)"
    by blast
  from last_one [OF wa(1)] obtain w where "ws = [w]" ..
  with wa(2,3) ra have pa: "label_eq (last (y_cur ?a)) (PyInt 0)" by simp
  have nb: "fst (smote_step ?E 1 (PyFloat (3 / 2)) start4f) = None" by code_simp
  then have sb: "smote_step ?E 1 (PyFloat (3 / 2)) start4f = (None, ?b)"
    by (metis prod.collapse)
  have rb: "\<not> int64_representable (PyFloat (3 / 2))"
    by (simp add: int64_representable_def)
  from synthetic_labels_int64 [of ?E 1 "PyFloat (3 / 2)" start4f ?b] sb obtain vs where
    wb: "length vs = nat 1" "y_cur ?b = y_cur start4f @ map int64_label vs"
      "\<forall>w\<in>set vs. label_eq (int64_label w) (PyFloat (3 / 2))
          \<longleftrightarrow> int64_representable (PyFloat (3 / 2))"
    by blast
  from last_one [OF wb(1)] obtain v where "vs = [v]" ..
  with wb(2,3) rb have pb: "\<not> label_eq (last (y_cur ?b)) (PyFloat (3 / 2))" by simp
  have sf: "smote_fit brute_nn (smote_init 1 (Some 0)) [[3], [4]] = (None, ?sm)"
    by code_simp
  have sp: "sample counter_rng brute_nn ?sm 1 7 = (Inr [[13 / 4]], 3)"
    by code_simp
  have env: "np ?E = counter_rng" "neighbors ?E = brute_nn"
    by (simp_all add: scripted_env_def)
  have mrc: "minority_rows (X_cur start4big) (y_cur start4big) (PyInt (2 ^ 63)) = [[3], [4]]"
    by (simp add: minority_rows_def start4big_def start4_def X4_def y4big_def label_eq_def
          label_val_def)
  have stc: "sampler start4big = smote_init 1 (Some 0)" "np_state start4big = 7"
      "X_cur start4big \<noteq> []" "y_cur start4big = y4big"
    by (simp_all add: start4big_def start4_def X4_def)
  have fc: "np_full_int64 (float_to_int64_overflow ?E) (length [[13 / 4 :: real]])
              (PyInt (2 ^ 63)) = Inr [word_of_int (2 ^ 63)]"
    by (simp add: np_full_int64_def to_int64_def int64_range_def uint64_only_range_def)
  have c2: "smote_fit (neighbors ?E) (sampler start4big)
              (minority_rows (X_cur start4big) (y_cur start4big) (PyInt (2 ^ 63))) = (None, ?sm)"
    unfolding mrc env stc(1) by (rule sf)
  have c3: "sample (np ?E) (neighbors ?E) ?sm 1 (np_state start4big) = (Inr [[13 / 4]], 3)"
    unfolding env stc(2) by (rule sp)
  note sc = smote_step_returns [OF c2 c3 fc stc(3)]
  from sc have nc: "fst (smote_step ?E 1 (PyInt (2 ^ 63)) start4big) = None" by simp
  from sc have yc: "y_cur ?c = y4big @ [PyInt (- (2 ^ 63))]"
    by (simp add: stc(4) int64_label_def)
  have rc: "\<not> int64_representable (PyInt (2 ^ 63))"
    by (simp add: int64_representable_def int64_range_def)
  from nc have scc: "smote_step ?E 1 (PyInt (2 ^ 63)) start4big = (None, ?c)"
    by (metis prod.collapse)
  from synthetic_labels_int64 [of ?E 1 "PyInt (2 ^ 63)" start4big ?c] scc obtain us where
    wc: "length us = nat 1" "y_cur ?c = y_cur start4big @ map int64_label us"
      "\<forall>w\<in>set us. label_eq (int64_label w) (PyInt (2 ^ 63))
          \<longleftrightarrow> int64_representable (PyInt (2 ^ 63))"
    by blast
  from last_one [OF wc(1)] obtain u where "us = [u]" ..
  with wc(2,3) rc have pc: "\<not> label_eq (last (y_cur ?c)) (PyInt (2 ^ 63))" by simp
  have d1: "to_int64 (float_to_int64_overflow ?E) (PyInt (2 ^ 64))
              = Inl (OverflowError ''Python int too large to convert to C long'')"
    by (simp add: to_int64_def int64_range_def uint64_only_range_def)
  have mrd: "minority_rows (X_cur start4huge) (y_cur start4huge) (PyInt (2 ^ 64)) = [[3], [4]]"
    by (simp add: minority_rows_def start4huge_def start4_def X4_def y4huge_def label_eq_def
          label_val_def)
  have std: "sampler start4huge = smote_init 1 (Some 0)" "np_state start4huge = 7"
    by (simp_all add: start4huge_def start4_def)
  have d2: "smote_fit (neighbors ?E) (sampler start4huge)
              (minority_rows (X_cur start4huge) (y_cur start4huge) (PyInt (2 ^ 64))) = (None, ?sm)"
    unfolding mrd env std(1) by (rule sf)
  have d3: "sample (np ?E) (neighbors ?E) ?sm 1 (np_state start4huge) = (Inr [[13 / 4]], 3)"
    unfolding env std(2) by (rule sp)
  have d4: "[[13 / 4 :: real]] \<noteq> []" by simp
  note inst = synthetic_labels_int64
    [of ?E 1 "PyInt (2 ^ 64)" start4huge _
        "OverflowError ''Python int too large to convert to C long''" ?sm "[[13 / 4]]" 3]
  from inst d1 have pd1: "\<not> int64_representable (PyInt (2 ^ 64))" by blast
  from inst d1 d2 d3 d4
  have pd2: "smote_step ?E 1 (PyInt (2 ^ 64)) start4huge
       = (Some (OverflowError ''Python int too large to convert to C long''),
          start4huge\<lparr>sampler := ?sm, np_state := 3\<rparr>)" by blast
  from na ra pa nb pb nc yc pc pd1 pd2 show ?thesis by blast
qed

section \<open>One iteration of the boosting loop\<close>

lemma smote_step_error_frame:
  "smote_step C ns t st = (Some e, st') \<Longrightarrow>
     X_cur st' = X_cur st \<and> y_cur st' = y_cur st \<and> sample_weight st' = sample_weight st
     \<and> est_weights st' = est_weights st \<and> est_errors st' = est_errors st
     \<and> estimators st' = estimators st"
  by (auto simp: smote_step_def Let_def split: prod.splits option.splits sum.splits if_splits)

lemma smote_step_frame:
  "smote_step C ns t st = (None, st') \<Longrightarrow>
     est_weights st' = est_weights st \<and> est_errors st' = est_errors st
     \<and> estimators st' = estimators st \<and> rnd st' = rnd st"
  by (erule smote_step_ok) simp

lemma boost_iteration_Next:
  assumes "boost_iteration C ns ne t i st = Next st'"
  obtains st1 w ew ee es b g where
    "smote_step C ns t st = (None, st1)"
    "boost C i (X_cur st1) (y_cur st1) (sample_weight st1)
       (estimators st1, rnd st1, np_state st1) = (Inr (Step w ew ee), es, b, g)"
    "i < length (est_weights st1)" "i < length (est_errors st1)" "ee \<noteq> 0" "0 < sum_list w"
    "X_cur st' = X_cur st1" "y_cur st' = y_cur st1"
    "sample_weight st' = (if int i < ne - 1 then map (\<lambda>x. x / sum_list w) w else w)"
    "est_weights st' = (est_weights st1)[i := ew]"
    "est_errors st' = (est_errors st1)[i := ee]"
  using assms
  by (auto simp: boost_iteration_def Let_def
           split: prod.splits option.splits sum.splits boost_result.splits if_splits)

lemma boost_iteration_Break:
  assumes "boost_iteration C ns ne t i st = Break st'"
  obtains (stop) st1 es b g where
    "smote_step C ns t st = (None, st1)"
    "boost C i (X_cur st1) (y_cur st1) (sample_weight st1)
       (estimators st1, rnd st1, np_state st1) = (Inr Stop, es, b, g)"
    "X_cur st' = X_cur st1" "y_cur st' = y_cur st1" "sample_weight st' = sample_weight st1"
    "est_weights st' = est_weights st1" "est_errors st' = est_errors st1"
  | (step) st1 w ew ee es b g where
    "smote_step C ns t st = (None, st1)"
    "boost C i (X_cur st1) (y_cur st1) (sample_weight st1)
       (estimators st1, rnd st1, np_state st1) = (Inr (Step w ew ee), es, b, g)"
    "i < length (est_weights st1)" "i < length (est_errors st1)" "ee = 0 \<or> sum_list w \<le> 0"
    "X_cur st' = X_cur st1" "y_cur st' = y_cur st1" "sample_weight st' = w"
    "est_weights st' = (est_weights st1)[i := ew]"
    "est_errors st' = (est_errors st1)[i := ee]"
  using assms
  by (auto simp: boost_iteration_def Let_def
           split: prod.splits option.splits sum.splits boost_result.splits if_splits)

lemma boost_iteration_Raise:
  assumes "boost_iteration C ns ne t i st = Raise e st'"
  obtains (smote) "smote_step C ns t st = (Some e, st')"
  | (boost) st1 es b g where
    "smote_step C ns t st = (None, st1)"
    "boost C i (X_cur st1) (y_cur st1) (sample_weight st1)
       (estimators st1, rnd st1, np_state st1) = (Inl e, es, b, g)"
    "X_cur st' = X_cur st1" "y_cur st' = y_cur st1" "sample_weight st' = sample_weight st1"
    "est_weights st' = est_weights st1" "est_errors st' = est_errors st1"
  | (index) st1 w ew ee es b g where
    "smote_step C ns t st = (None, st1)"
    "boost C i (X_cur st1) (y_cur st1) (sample_weight st1)
       (estimators st1, rnd st1, np_state st1) = (Inr (Step w ew ee), es, b, g)"
    "length (est_weights st1) \<le> i \<or> length (est_errors st1) \<le> i"
    "X_cur st' = X_cur st1" "y_cur st' = y_cur st1" "sample_weight st' = w"
    "est_weights st' = est_weights st1" "est_errors st' = est_errors st1"
  using assms
  by (auto simp: boost_iteration_def Let_def
           split: prod.splits option.splits sum.splits boost_result.splits if_splits)

section \<open>The loop\<close>

lemma fit_loop_done: "\<not> lo < hi \<Longrightarrow> fit_loop C ns ne t lo hi st = Finished st"
  by (subst fit_loop.simps) simp

lemma fit_loop_split:
  "lo \<le> mid \<Longrightarrow> mid \<le> hi \<Longrightarrow>
   fit_loop C ns ne t lo hi st =
     (case fit_loop C ns ne t lo mid st of
        Raised e s \<Rightarrow> Raised e s
      | Stopped s \<Rightarrow> Stopped s
      | Finished s \<Rightarrow> fit_loop C ns ne t mid hi s)"
proof (induction "mid - lo" arbitrary: lo st)
  case 0
  then have "lo = mid" by simp
  then show ?case by (simp add: fit_loop_done)
next
  case (Suc n)
  then have lt: "lo < mid" "lo < hi" by simp_all
  show ?case
  proof (cases "boost_iteration C ns ne t lo st")
    case (Raise e s)
    with lt show ?thesis by (simp add: fit_loop_unfold)
  next
    case (Break s)
    with lt show ?thesis by (simp add: fit_loop_unfold)
  next
    case (Next s)
    from Suc have "n = mid - Suc lo" "Suc lo \<le> mid" "mid \<le> hi" by simp_all
    from Suc.hyps(1) [OF this] Next lt show ?thesis by (simp add: fit_loop_unfold)
  qed
qed

lemma fit_loop_snoc:
  assumes "lo \<le> i"
  shows "fit_loop C ns ne t lo (Suc i) st =
     (case fit_loop C ns ne t lo i st of
        Raised e s \<Rightarrow> Raised e s
      | Stopped s \<Rightarrow> Stopped s
      | Finished s \<Rightarrow>
          (case boost_iteration C ns ne t i s of
             Raise e s' \<Rightarrow> Raised e s'
           | Break s' \<Rightarrow> Stopped s'
           | Next s' \<Rightarrow> Finished s'))"
proof -
  have last: "\<And>s. fit_loop C ns ne t i (Suc i) s =
     (case boost_iteration C ns ne t i s of
             Raise e s' \<Rightarrow> Raised e s'
           | Break s' \<Rightarrow> Stopped s'
           | Next s' \<Rightarrow> Finished s')"
    by (simp add: fit_loop_unfold fit_loop_done split: step.splits)
  from assms have "fit_loop C ns ne t lo (Suc i) st =
     (case fit_loop C ns ne t lo i st of
        Raised e s \<Rightarrow> Raised e s
      | Stopped s \<Rightarrow> Stopped s
      | Finished s \<Rightarrow> fit_loop C ns ne t i (Suc i) s)"
    by (intro fit_loop_split) simp_all
  then show ?thesis by (simp only: last)
qed

lemma fit_loop_Finished_Suc:
  assumes "fit_loop C ns ne t lo (Suc i) st = Finished st'" and "lo \<le> i"
  obtains s where "fit_loop C ns ne t lo i st = Finished s"
    "boost_iteration C ns ne t i s = Next st'"
  using assms(1) unfolding fit_loop_snoc [OF assms(2)]
  by (auto split: loop_exit.splits step.splits)

lemma fit_loop_Finished_0:
  "fit_loop C ns ne t lo lo st = Finished st' \<Longrightarrow> st' = st"
  by (simp add: fit_loop_done)

lemma fit_loop_prefix_invariant:
  assumes base: "I lo st"
    and step: "\<forall>i s s'. lo \<le> i \<longrightarrow> I i s \<longrightarrow> boost_iteration C ns ne t i s = Next s'
                 \<longrightarrow> I (Suc i) s'"
  shows "lo \<le> i \<Longrightarrow> fit_loop C ns ne t lo i st = Finished st' \<Longrightarrow> I i st'"
proof (induction i arbitrary: st')
  case 0
  then have "lo = 0" by simp
  with 0 base show ?case by (simp add: fit_loop_done)
next
  case (Suc i)
  show ?case
  proof (cases "lo = Suc i")
    case True
    with Suc.prems(2) have "st' = st" by (simp add: fit_loop_done)
    with True base show ?thesis by simp
  next
    case False
    with Suc.prems(1) have le: "lo \<le> i" by simp
    from Suc.prems(2) le obtain s where
      s: "fit_loop C ns ne t lo i st = Finished s" "boost_iteration C ns ne t i s = Next st'"
      by (rule fit_loop_Finished_Suc)
    from Suc.IH [OF le s(1)] have "I i s" .
    with step le s(2) show ?thesis by blast
  qed
qed


section \<open>The state on which the loop starts\<close>

lemma fit_prepare_ok:
  assumes "fit_prepare C X y sw mt self g = Inr (self2, t, st0)"
  shows "X_cur st0 = X" "y_cur st0 = y" "length y = length X" "X \<noteq> []"
    "sample_weight st0 = replicate (length X) (1 / real (length X))"
    "est_weights st0 = replicate (nat (n_estimators self2)) 0"
    "est_errors st0 = replicate (nat (n_estimators self2)) 1"
    "0 \<le> n_estimators self2" "estimators st0 = []" "np_state st0 = g"
    "self2 = self\<lparr>minority_target := Some t, fitted_estimators := Some [],
            estimator_weights := Some (replicate (nat (n_estimators self)) 0),
            estimator_errors := Some (replicate (nat (n_estimators self)) 1)\<rparr>"
  using assms
  by (auto simp: fit_prepare_def Let_def check_X_y_def initial_weights_def check_array_def
           split: if_splits sum.splits option.splits prod.splits)

section \<open>Concrete iterations\<close>

lemma run4_iteration0:
  "boost_iteration (scripted_env (perfect_at 2)) 1 5 (PyInt 0) 0 (start4 1) = Next after1"
  by code_simp

lemma run4_iteration1:
  "boost_iteration (scripted_env (perfect_at 2)) 1 5 (PyInt 0) 1 after1 = Next after2"
  by code_simp

lemma run4_prefix1:
  "fit_loop (scripted_env (perfect_at 2)) 1 5 (PyInt 0) 0 (Suc 0) (start4 1) = Finished after1"
  by (simp add: fit_loop_snoc fit_loop_done run4_iteration0)

lemma run4_prefix2:
  "fit_loop (scripted_env (perfect_at 2)) 1 5 (PyInt 0) 0 (Suc (Suc 0)) (start4 1)
     = Finished after2"
  using run4_iteration1 by (simp add: fit_loop_snoc [of 0 "Suc 0"] run4_prefix1)


section \<open>The dataset only grows at its end\<close>

lemma smote_step_appends:
  assumes "smote_step C ns t st = (None, st1)"
  obtains sm g X_syn ws where
    "sample (np C) (neighbors C) sm ns (np_state st) = (Inr X_syn, g)"
    "length X_syn = nat ns" "length ws = nat ns"
    "X_cur st1 = X_cur st @ X_syn" "y_cur st1 = y_cur st @ map int64_label ws"
    "sample_weight st1 = l1_normalize
       (sample_weight st @ replicate (nat ns) (1 / real (length (X_cur st))))"
    "X_cur st \<noteq> []"
proof -
  from assms obtain sm g X_syn ws where
    s: "sample (np C) (neighbors C) sm ns (np_state st) = (Inr X_syn, g)" and
    f: "np_full_int64 (float_to_int64_overflow C) (length X_syn) t = Inr ws" and
    n: "X_cur st \<noteq> []" and
    e: "st1 = st\<lparr>sampler := sm, np_state := g, X_cur := X_cur st @ X_syn,
              y_cur := y_cur st @ map int64_label ws,
              sample_weight := l1_normalize
                (sample_weight st @ replicate (length X_syn) (1 / real (length (X_cur st))))\<rparr>"
    by (rule smote_step_ok)
  from s have l: "length X_syn = nat ns" by (simp add: sample_length)
  with f have lw: "length ws = nat ns" by (simp add: np_full_int64_length)
  from e l have x: "X_cur st1 = X_cur st @ X_syn"
    and y: "y_cur st1 = y_cur st @ map int64_label ws"
    and w: "sample_weight st1 = l1_normalize
       (sample_weight st @ replicate (nat ns) (1 / real (length (X_cur st))))"
    by simp_all
  from s l lw x y w n show ?thesis by (rule that)
qed

lemma iteration_appends:
  assumes "boost_iteration C ns ne t i st = Next st' \<or> boost_iteration C ns ne t i st = Break st'"
  shows "\<exists>sm g X_syn ws.
          sample (np C) (neighbors C) sm ns (np_state st) = (Inr X_syn, g)
        \<and> length X_syn = nat ns \<and> length ws = nat ns
        \<and> X_cur st' = X_cur st @ X_syn
        \<and> y_cur st' = y_cur st @ map int64_label ws"
proof -
  from assms obtain st1 where
    s: "smote_step C ns t st = (None, st1)" and x: "X_cur st' = X_cur st1"
    and y: "y_cur st' = y_cur st1"
  proof
    assume "boost_iteration C ns ne t i st = Next st'"
    then show ?thesis by (rule boost_iteration_Next) (rule that)
  next
    assume "boost_iteration C ns ne t i st = Break st'"
    then show ?thesis by (rule boost_iteration_Break) (rule that, assumption+)+
  qed
  from s show ?thesis
  proof (rule smote_step_appends)
    fix sm g X_syn ws
    assume "sample (np C) (neighbors C) sm ns (np_state st) = (Inr X_syn, g)"
      "length X_syn = nat ns" "length ws = nat ns"
      "X_cur st1 = X_cur st @ X_syn" "y_cur st1 = y_cur st @ map int64_label ws"
    with x y show ?thesis by auto
  qed
qed

lemma iteration_raise_appends:
  assumes "boost_iteration C ns ne t i st = Raise e st'"
  shows "\<exists>X_syn y_syn. length y_syn = length X_syn \<and> X_cur st' = X_cur st @ X_syn
            \<and> y_cur st' = y_cur st @ y_syn"
proof -
  let ?G = "\<exists>X_syn y_syn. length y_syn = length X_syn \<and> X_cur st' = X_cur st @ X_syn
            \<and> y_cur st' = y_cur st @ y_syn"
  have app: "?G" if s: "smote_step C ns t st = (None, st1)" and x: "X_cur st' = X_cur st1"
      and y: "y_cur st' = y_cur st1" for st1
  proof -
    from s obtain X_syn :: matrix and ws where "length X_syn = nat ns" "length ws = nat ns"
      "X_cur st1 = X_cur st @ X_syn" "y_cur st1 = y_cur st @ map int64_label ws"
      by (rule smote_step_appends)
    with x y have "length (map int64_label ws) = length X_syn \<and> X_cur st' = X_cur st @ X_syn
            \<and> y_cur st' = y_cur st @ map int64_label ws" by simp
    then show ?thesis by blast
  qed
  from assms show ?thesis
  proof (cases rule: boost_iteration_Raise)
    case smote
    then have "X_cur st' = X_cur st" "y_cur st' = y_cur st"
      by (simp_all add: smote_step_error_frame)
    then have "length ([] :: label list) = length ([] :: matrix) \<and> X_cur st' = X_cur st @ []
            \<and> y_cur st' = y_cur st @ []" by simp
    then show ?thesis by blast
  next
    case (boost st1 es b g)
    then show ?thesis by (intro app)
  next
    case (index st1 w ew ee es b g)
    then show ?thesis by (intro app)
  qed
qed

lemma loop_appends:
  "\<exists>Xs ys. length ys = length Xs
      \<and> X_cur (exit_state (fit_loop C ns ne t lo hi st)) = X_cur st @ Xs
      \<and> y_cur (exit_state (fit_loop C ns ne t lo hi st)) = y_cur st @ ys"
proof (induction "hi - lo" arbitrary: lo st)
  case 0
  then have "fit_loop C ns ne t lo hi st = Finished st" by (simp add: fit_loop_done)
  then have "length ([] :: label list) = length ([] :: matrix)
      \<and> X_cur (exit_state (fit_loop C ns ne t lo hi st)) = X_cur st @ []
      \<and> y_cur (exit_state (fit_loop C ns ne t lo hi st)) = y_cur st @ []" by simp
  then show ?case by blast
next
  case (Suc n)
  then have lt: "lo < hi" by simp
  show ?case
  proof (cases "boost_iteration C ns ne t lo st")
    case (Raise e s)
    with lt have "fit_loop C ns ne t lo hi st = Raised e s" by (simp add: fit_loop_unfold)
    with iteration_raise_appends [OF Raise] show ?thesis by simp
  next
    case (Break s)
    with lt have "fit_loop C ns ne t lo hi st = Stopped s" by (simp add: fit_loop_unfold)
    moreover from Break iteration_appends [of C ns ne t lo st s] obtain X_syn ws where
      "length X_syn = nat ns" "length ws = nat ns"
      "X_cur s = X_cur st @ X_syn" "y_cur s = y_cur st @ map int64_label ws" by blast
    ultimately have "length (map int64_label ws) = length X_syn
      \<and> X_cur (exit_state (fit_loop C ns ne t lo hi st)) = X_cur st @ X_syn
      \<and> y_cur (exit_state (fit_loop C ns ne t lo hi st)) = y_cur st @ map int64_label ws"
      by simp
    then show ?thesis by blast
  next
    case (Next s)
    with lt have eq: "fit_loop C ns ne t lo hi st = fit_loop C ns ne t (Suc lo) hi s"
      by (simp add: fit_loop_unfold)
    from Next iteration_appends [of C ns ne t lo st s] obtain X_syn ws where
      a: "length X_syn = nat ns" "length ws = nat ns"
      "X_cur s = X_cur st @ X_syn" "y_cur s = y_cur st @ map int64_label ws" by blast
    from Suc have "n = hi - Suc lo" by simp
    from Suc.hyps(1) [OF this, of s] obtain Xs ys where
      b: "length ys = length Xs"
      "X_cur (exit_state (fit_loop C ns ne t (Suc lo) hi s)) = X_cur s @ Xs"
      "y_cur (exit_state (fit_loop C ns ne t (Suc lo) hi s)) = y_cur s @ ys" by blast
    from a b eq have "length (map int64_label ws @ ys) = length (X_syn @ Xs)
      \<and> X_cur (exit_state (fit_loop C ns ne t lo hi st)) = X_cur st @ (X_syn @ Xs)
      \<and> y_cur (exit_state (fit_loop C ns ne t lo hi st)) = y_cur st @ (map int64_label ws @ ys)"
      by simp
    then show ?thesis by blast
  qed
qed

text \<open>
  C9. An iteration that reaches the booster and does not raise leaves the dataset of the
  iteration's start with the \<open>n_samples\<close> rows that \<open>sample\<close> returned appended to the
  features and as many labels appended to the labels; an iteration that raises leaves the
  dataset of its start with nothing or that batch appended. Hence the dataset after the
  iterations \<open>lo\<close> to \<open>mid - 1\<close> is an initial segment, features and labels, of the dataset
  with which the loop over \<open>lo\<close> to \<open>hi - 1\<close> ends, however it ends: earlier samples keep
  their values and positions and every batch lies behind all earlier ones. The loop of
  \<open>fit\<close> starts on the checked input arrays.
\<close>

theorem dataset_append_only:
  "((boost_iteration C ns ne t i st = Next st' \<or> boost_iteration C ns ne t i st = Break st') \<longrightarrow>
      (\<exists>sm g X_syn ws.
          sample (np C) (neighbors C) sm ns (np_state st) = (Inr X_syn, g)
        \<and> length X_syn = nat ns \<and> length ws = nat ns
        \<and> X_cur st' = X_cur st @ X_syn
        \<and> y_cur st' = y_cur st @ map int64_label ws))
   \<and> (boost_iteration C ns ne t i st = Raise e st' \<longrightarrow>
        (\<exists>X_syn y_syn. length y_syn = length X_syn \<and> X_cur st' = X_cur st @ X_syn
            \<and> y_cur st' = y_cur st @ y_syn))
   \<and> (lo \<le> mid \<longrightarrow> mid \<le> hi \<longrightarrow> fit_loop C ns ne t lo mid st = Finished s \<longrightarrow>
        (\<exists>Xs ys. length ys = length Xs
           \<and> X_cur (exit_state (fit_loop C ns ne t lo hi st)) = X_cur s @ Xs
           \<and> y_cur (exit_state (fit_loop C ns ne t lo hi st)) = y_cur s @ ys))
   \<and> (fit_prepare C X y sw mt self g0 = Inr (self2, t0, st0) \<longrightarrow>
        X_cur st0 = X \<and> y_cur st0 = y)"
proof (intro conjI impI)
  assume "boost_iteration C ns ne t i st = Next st' \<or> boost_iteration C ns ne t i st = Break st'"
  then show "\<exists>sm g X_syn ws.
          sample (np C) (neighbors C) sm ns (np_state st) = (Inr X_syn, g)
        \<and> length X_syn = nat ns \<and> length ws = nat ns
        \<and> X_cur st' = X_cur st @ X_syn
        \<and> y_cur st' = y_cur st @ map int64_label ws" by (rule iteration_appends)
next
  assume "boost_iteration C ns ne t i st = Raise e st'"
  then show "\<exists>X_syn y_syn. length y_syn = length X_syn \<and> X_cur st' = X_cur st @ X_syn
            \<and> y_cur st' = y_cur st @ y_syn" by (rule iteration_raise_appends)
next
  assume "lo \<le> mid" "mid \<le> hi" and f: "fit_loop C ns ne t lo mid st = Finished s"
  then have "fit_loop C ns ne t lo hi st = fit_loop C ns ne t mid hi s"
    by (simp add: fit_loop_split [of lo mid hi])
  then show "\<exists>Xs ys. length ys = length Xs
           \<and> X_cur (exit_state (fit_loop C ns ne t lo hi st)) = X_cur s @ Xs
           \<and> y_cur (exit_state (fit_loop C ns ne t lo hi st)) = y_cur s @ ys"
    using loop_appends [of C ns ne t mid hi s] by simp
next
  assume p: "fit_prepare C X y sw mt self g0 = Inr (self2, t0, st0)"
  then show "X_cur st0 = X" by (rule fit_prepare_ok)
  from p show "y_cur st0 = y" by (rule fit_prepare_ok)
qed

text \<open>
  C9 on the run for \<open>X4\<close>, \<open>y4\<close> with one synthetic sample per iteration: the first iteration
  appends the row \<open>1/4\<close> with label 0 behind the four originals, and the dataset after the
  first iteration is the initial segment of the dataset after the second.
\<close>

theorem dataset_append_only_witness:
  "boost_iteration (scripted_env (perfect_at 2)) 1 5 (PyInt 0) 0 (start4 1) = Next after1
   \<and> take 4 (X_cur after1) = X4 \<and> take 4 (y_cur after1) = y4
   \<and> length (X_cur after1) = 4 + nat 1
   \<and> fit_loop (scripted_env (perfect_at 2)) 1 5 (PyInt 0) 0 (Suc 0) (start4 1)
        = Finished after1
   \<and> take 5 (X_cur (exit_state
         (fit_loop (scripted_env (perfect_at 2)) 1 5 (PyInt 0) 0 (Suc (Suc 0)) (start4 1))))
        = X_cur after1
   \<and> take 5 (y_cur (exit_state
         (fit_loop (scripted_env (perfect_at 2)) 1 5 (PyInt 0) 0 (Suc (Suc 0)) (start4 1))))
        = y_cur after1
   \<and> fit_prepare (scripted_env (perfect_at 2)) X4 y4 None (Some (PyInt 0))
         (smoteboost_init 1 5 1 1 (Some 0)) 7
        = Inr ((smoteboost_init 1 5 1 1 (Some 0))
                 \<lparr>minority_target := Some (PyInt 0), fitted_estimators := Some [],
                  estimator_weights := Some (replicate 5 0),
                  estimator_errors := Some (replicate 5 1)\<rparr>, PyInt 0, start4 1)
   \<and> X_cur (start4 1) = X4 \<and> y_cur (start4 1) = y4"
proof -
  let ?E = "scripted_env (perfect_at 2)"
  let ?self2 = "(smoteboost_init 1 5 1 1 (Some 0))
                 \<lparr>minority_target := Some (PyInt 0), fitted_estimators := Some [],
                  estimator_weights := Some (replicate 5 0),
                  estimator_errors := Some (replicate 5 1)\<rparr>"
  let ?ex = "exit_state (fit_loop ?E 1 5 (PyInt 0) 0 (Suc (Suc 0)) (start4 1))"
  have b: "boost_iteration ?E 1 5 (PyInt 0) 0 (start4 1) = Next after1"
    by (rule run4_iteration0)
  have f: "fit_loop ?E 1 5 (PyInt 0) 0 (Suc 0) (start4 1) = Finished after1"
    by (rule run4_prefix1)
  have p: "fit_prepare ?E X4 y4 None (Some (PyInt 0)) (smoteboost_init 1 5 1 1 (Some 0)) 7
             = Inr (?self2, PyInt 0, start4 1)"
    by code_simp
  have l: "length (X_cur (start4 1)) = 4" "length (y_cur (start4 1)) = 4"
    "X_cur (start4 1) = X4" "y_cur (start4 1) = y4"
    "length (X_cur after1) = 5" "length (y_cur after1) = 5"
    by (simp_all add: start4_def X4_def y4_def after1_def)
  have le: "(0 :: nat) \<le> Suc 0" "Suc 0 \<le> Suc (Suc 0)" by simp_all
  note inst = dataset_append_only
    [of ?E 1 5 "PyInt 0" 0 "start4 1" after1 _ 0 "Suc 0" "Suc (Suc 0)" after1
        X4 y4 None "Some (PyInt 0)" "smoteboost_init 1 5 1 1 (Some 0)" 7 ?self2 "PyInt 0"
        "start4 1"]
  from inst b obtain X_syn :: matrix and ws where
    a: "length X_syn = nat 1" "X_cur after1 = X_cur (start4 1) @ X_syn"
      "y_cur after1 = y_cur (start4 1) @ map int64_label ws" by blast
  from a(2) l have p1: "take 4 (X_cur after1) = X4" by simp
  from a(3) l have p2: "take 4 (y_cur after1) = y4" by simp
  from a(1,2) l have p3: "length (X_cur after1) = 4 + nat 1" by simp
  from inst le f obtain Xs ys where
    c: "X_cur ?ex = X_cur after1 @ Xs" "y_cur ?ex = y_cur after1 @ ys" by blast
  from c(1) l have p4: "take 5 (X_cur ?ex) = X_cur after1" by simp
  from c(2) l have p5: "take 5 (y_cur ?ex) = y_cur after1" by simp
  from inst p have p6: "X_cur (start4 1) = X4 \<and> y_cur (start4 1) = y4" by blast
  from b p1 p2 p3 f p4 p5 p p6 show ?thesis by blast
qed

section \<open>Sizes of the dataset and of the weight vector\<close>








lemma scripted_boost_result:
  "boost (scripted_env f) i X y w (es, b, g) = (Inr (f i w), es @ [i], b, g)"
  by (simp add: scripted_env_def scripted_boost_def)


lemma run4_prepare:
  "fit_prepare (scripted_env (perfect_at 2)) X4 y4 None (Some (PyInt 0))
      (smoteboost_init 1 5 1 1 (Some 0)) 7
     = Inr ((smoteboost_init 1 5 1 1 (Some 0))
              \<lparr>minority_target := Some (PyInt 0), fitted_estimators := Some [],
               estimator_weights := Some (replicate 5 0),
               estimator_errors := Some (replicate 5 1)\<rparr>, PyInt 0, start4 1)"
  by code_simp

lemma run4_parameters:
  "n_samples ((smoteboost_init 1 5 1 1 (Some 0))
              \<lparr>minority_target := Some (PyInt 0), fitted_estimators := Some [],
               estimator_weights := Some (replicate 5 0),
               estimator_errors := Some (replicate 5 1)\<rparr>) = 1"
  "n_estimators ((smoteboost_init 1 5 1 1 (Some 0))
              \<lparr>minority_target := Some (PyInt 0), fitted_estimators := Some [],
               estimator_weights := Some (replicate 5 0),
               estimator_errors := Some (replicate 5 1)\<rparr>) = 5"
  by (simp_all add: smoteboost_init_def)



section \<open>Weights of the synthetic samples and the sum of the weights\<close>











section \<open>Leaving the loop early\<close>

lemma prefix_ensemble_slots:
  assumes p: "fit_prepare C X y sw mt self g = Inr (self2, t, st0)"
    and f: "fit_loop C ns (n_estimators self2) t 0 i st0 = Finished st"
  shows "length (est_weights st) = nat (n_estimators self2)"
    and "length (est_errors st) = nat (n_estimators self2)"
    and "\<forall>j. i \<le> j \<and> j < nat (n_estimators self2)
           \<longrightarrow> est_weights st ! j = 0 \<and> est_errors st ! j = 1"
proof -
  let ?n = "nat (n_estimators self2)"
  let ?D = "\<lambda>i s. length (est_weights s) = ?n \<and> length (est_errors s) = ?n
              \<and> (\<forall>j. i \<le> j \<and> j < ?n \<longrightarrow> est_weights s ! j = 0 \<and> est_errors s ! j = 1)"
  from p have "est_weights st0 = replicate ?n 0" "est_errors st0 = replicate ?n 1"
    by (rule fit_prepare_ok)+
  then have base: "?D 0 st0" by simp
  have step: "\<forall>i s s'. 0 \<le> i \<longrightarrow> ?D i s
                 \<longrightarrow> boost_iteration C ns (n_estimators self2) t i s = Next s'
                 \<longrightarrow> ?D (Suc i) s'"
  proof (intro allI impI)
    fix i s s'
    assume D: "?D i s" and n: "boost_iteration C ns (n_estimators self2) t i s = Next s'"
    from n show "?D (Suc i) s'"
    proof (rule boost_iteration_Next)
      fix s1 ew ee
      assume s: "smote_step C ns t s = (None, s1)"
        and w: "est_weights s' = (est_weights s1)[i := ew]"
        and e: "est_errors s' = (est_errors s1)[i := ee]"
      from s have "est_weights s1 = est_weights s" "est_errors s1 = est_errors s"
        by (simp_all add: smote_step_frame)
      with w e D show ?thesis by simp
    qed
  qed
  from fit_loop_prefix_invariant [where I = ?D, OF base step _ f]
  show "length (est_weights st) = ?n" and "length (est_errors st) = ?n"
    and "\<forall>j. i \<le> j \<and> j < ?n \<longrightarrow> est_weights st ! j = 0 \<and> est_errors st ! j = 1"
    by simp_all
qed

lemma fit_leaves_by_break:
  assumes p: "fit_prepare C X y sw mt self g = Inr (self2, t, st0)"
    and lt: "i < nat (n_estimators self2)"
    and f: "fit_loop C (n_samples self2) (n_estimators self2) t 0 i st0 = Finished st"
    and b: "boost_iteration C (n_samples self2) (n_estimators self2) t i st = Break s"
  shows "fit C X y sw mt self g = (None, store_back s self2, np_state s)"
proof -
  let ?ns = "n_samples self2" and ?ne = "n_estimators self2"
  from lt f have "fit_loop C ?ns ?ne t 0 (nat ?ne) st0 = fit_loop C ?ns ?ne t i (nat ?ne) st"
    by (simp add: fit_loop_split [of 0 i "nat ?ne"])
  also from lt b have "\<dots> = Stopped s" by (simp add: fit_loop_unfold)
  finally show ?thesis using p by (simp add: fit_def)
qed

lemma iteration_stop_signal:
  assumes "smote_step C ns t st = (None, st1)"
    and "boost C i (X_cur st1) (y_cur st1) (sample_weight st1)
           (estimators st1, rnd st1, np_state st1) = (Inr Stop, es, b, g')"
  shows "boost_iteration C ns ne t i st = Break (st1\<lparr>estimators := es, rnd := b, np_state := g'\<rparr>)"
  using assms by (simp add: boost_iteration_def)

lemma iteration_zero_error:
  assumes "smote_step C ns t st = (None, st1)"
    and "boost C i (X_cur st1) (y_cur st1) (sample_weight st1)
           (estimators st1, rnd st1, np_state st1) = (Inr (Step w ew 0), es, b, g')"
    and "i < length (est_weights st1)" "i < length (est_errors st1)"
  shows "boost_iteration C ns ne t i st
           = Break (st1\<lparr>estimators := es, rnd := b, np_state := g', sample_weight := w,
                        est_weights := (est_weights st1)[i := ew],
                        est_errors := (est_errors st1)[i := 0]\<rparr>)"
  using assms by (simp add: boost_iteration_def Let_def)

text \<open>
  C7. For a run of \<open>fit\<close> that reaches its loop, let \<open>st\<close> be the state at the head of
  iteration \<open>i\<close> of the \<open>n_estimators\<close> iterations, let the SMOTE step of that iteration
  return, and let the booster return without raising. If the booster returns the learner
  weight \<open>ew\<close> with error 0, \<open>fit\<close> returns without an error, with ensemble arrays of length
  \<open>n_estimators\<close> that hold \<open>ew\<close> and 0 in slot \<open>i\<close>, what the earlier iterations recorded in
  the slots before \<open>i\<close>, and the defaults 0 and 1 in every slot after \<open>i\<close>. If the booster
  signals a stop, \<open>fit\<close> returns without an error, with the defaults 0 and 1 in slot \<open>i\<close>
  and in every later slot.
\<close>

theorem early_stop_keeps_defaults:
  "fit_prepare C X y sw mt self g = Inr (self2, t, st0) \<longrightarrow>
   i < nat (n_estimators self2) \<longrightarrow>
   fit_loop C (n_samples self2) (n_estimators self2) t 0 i st0 = Finished st \<longrightarrow>
   smote_step C (n_samples self2) t st = (None, st1) \<longrightarrow>
   boost C i (X_cur st1) (y_cur st1) (sample_weight st1)
     (estimators st1, rnd st1, np_state st1) = (Inr r, es, b, g') \<longrightarrow>
     (r = Step w ew 0 \<longrightarrow>
        (\<exists>ws er.
           fit C X y sw mt self g
             = (None, self2\<lparr>smote := sampler st1, fitted_estimators := Some es,
                              estimator_weights := Some ws, estimator_errors := Some er\<rparr>, g')
           \<and> length ws = nat (n_estimators self2) \<and> length er = nat (n_estimators self2)
           \<and> ws ! i = ew \<and> er ! i = 0
           \<and> (\<forall>j. j < i \<longrightarrow> ws ! j = est_weights st ! j \<and> er ! j = est_errors st ! j)
           \<and> (\<forall>j. i < j \<and> j < nat (n_estimators self2) \<longrightarrow> ws ! j = 0 \<and> er ! j = 1)))
   \<and> (r = Stop \<longrightarrow>
        (\<exists>ws er.
           fit C X y sw mt self g
             = (None, self2\<lparr>smote := sampler st1, fitted_estimators := Some es,
                              estimator_weights := Some ws, estimator_errors := Some er\<rparr>, g')
           \<and> length ws = nat (n_estimators self2) \<and> length er = nat (n_estimators self2)
           \<and> (\<forall>j. j < i \<longrightarrow> ws ! j = est_weights st ! j \<and> er ! j = est_errors st ! j)
           \<and> (\<forall>j. i \<le> j \<and> j < nat (n_estimators self2) \<longrightarrow> ws ! j = 0 \<and> er ! j = 1)))"
proof (intro impI conjI)
  let ?n = "nat (n_estimators self2)"
  assume p: "fit_prepare C X y sw mt self g = Inr (self2, t, st0)"
    and lt: "i < ?n"
    and f: "fit_loop C (n_samples self2) (n_estimators self2) t 0 i st0 = Finished st"
    and s: "smote_step C (n_samples self2) t st = (None, st1)"
    and bo: "boost C i (X_cur st1) (y_cur st1) (sample_weight st1)
               (estimators st1, rnd st1, np_state st1) = (Inr r, es, b, g')"
  note D = prefix_ensemble_slots [OF p f]
  from s have fr: "est_weights st1 = est_weights st" "est_errors st1 = est_errors st"
    by (simp_all add: smote_step_frame)
  {
    assume r: "r = Step w ew 0"
    let ?ws = "(est_weights st)[i := ew]" and ?er = "(est_errors st)[i := 0]"
    from D lt fr have "i < length (est_weights st1)" "i < length (est_errors st1)" by simp_all
    from iteration_zero_error [OF s bo [unfolded r] this, of "n_estimators self2"]
    have "fit C X y sw mt self g
            = (None, self2\<lparr>smote := sampler st1, fitted_estimators := Some es,
                  estimator_weights := Some ?ws, estimator_errors := Some ?er\<rparr>, g')"
      by (simp add: fit_leaves_by_break [OF p lt f] store_back_def fr)
    moreover from D have "length ?ws = ?n" "length ?er = ?n" by simp_all
    moreover from D lt have "?ws ! i = ew" "?er ! i = 0" by simp_all
    moreover have "\<forall>j. j < i \<longrightarrow> ?ws ! j = est_weights st ! j \<and> ?er ! j = est_errors st ! j"
      by simp
    moreover from D(3) have "\<forall>j. i < j \<and> j < ?n \<longrightarrow> ?ws ! j = 0 \<and> ?er ! j = 1" by simp
    ultimately show "\<exists>ws er.
           fit C X y sw mt self g
             = (None, self2\<lparr>smote := sampler st1, fitted_estimators := Some es,
                              estimator_weights := Some ws, estimator_errors := Some er\<rparr>, g')
           \<and> length ws = ?n \<and> length er = ?n
           \<and> ws ! i = ew \<and> er ! i = 0
           \<and> (\<forall>j. j < i \<longrightarrow> ws ! j = est_weights st ! j \<and> er ! j = est_errors st ! j)
           \<and> (\<forall>j. i < j \<and> j < ?n \<longrightarrow> ws ! j = 0 \<and> er ! j = 1)" by blast
  }
  assume r: "r = Stop"
  from iteration_stop_signal [OF s bo [unfolded r], of "n_estimators self2"]
  have "fit C X y sw mt self g
          = (None, self2\<lparr>smote := sampler st1, fitted_estimators := Some es,
                estimator_weights := Some (est_weights st),
                estimator_errors := Some (est_errors st)\<rparr>, g')"
    by (simp add: fit_leaves_by_break [OF p lt f] store_back_def fr)
  with D show "\<exists>ws er.
           fit C X y sw mt self g
             = (None, self2\<lparr>smote := sampler st1, fitted_estimators := Some es,
                              estimator_weights := Some ws, estimator_errors := Some er\<rparr>, g')
           \<and> length ws = ?n \<and> length er = ?n
           \<and> (\<forall>j. j < i \<longrightarrow> ws ! j = est_weights st ! j \<and> er ! j = est_errors st ! j)
           \<and> (\<forall>j. i \<le> j \<and> j < ?n \<longrightarrow> ws ! j = 0 \<and> er ! j = 1)" by blast
qed


lemma list_of_five:
  "length xs = 5 \<Longrightarrow> xs = [xs ! 0, xs ! 1, xs ! 2, xs ! 3, xs ! 4]"
  by (auto simp: eval_nat_numeral length_Suc_conv)

lemma run4_smote_step2:
  "fst (smote_step (scripted_env (perfect_at 2)) 1 (PyInt 0) after2) = None"
  by code_simp

lemma stop4_prepare:
  "fit_prepare (scripted_env (stop_at 1)) X4 y4 None (Some (PyInt 0))
      (smoteboost_init 1 5 1 1 (Some 0)) 7
     = Inr ((smoteboost_init 1 5 1 1 (Some 0))
              \<lparr>minority_target := Some (PyInt 0), fitted_estimators := Some [],
               estimator_weights := Some (replicate 5 0),
               estimator_errors := Some (replicate 5 1)\<rparr>, PyInt 0, start4 1)"
  by code_simp

lemma stop4_iteration0:
  "boost_iteration (scripted_env (stop_at 1)) 1 5 (PyInt 0) 0 (start4 1) = Next after1"
  by code_simp

lemma stop4_prefix1:
  "fit_loop (scripted_env (stop_at 1)) 1 5 (PyInt 0) 0 (Suc 0) (start4 1) = Finished after1"
  using stop4_iteration0 by (simp add: fit_loop_snoc fit_loop_done)

lemma stop4_smote_step1:
  "fst (smote_step (scripted_env (stop_at 1)) 1 (PyInt 0) after1) = None"
  by code_simp

text \<open>
  C7 on the run for \<open>X4\<close>, \<open>y4\<close> with five estimators. When the booster reports error 0
  at iteration 2, \<open>fit\<close> raises nothing and the slots 0 to 2 hold the recorded learner
  weights and errors while the slots 3 and 4 hold weight 0 and error 1. When the booster
  signals a stop at iteration 1, \<open>fit\<close> raises nothing and the slots 1 to 4 hold weight
  0 and error 1.
\<close>

theorem early_stop_keeps_defaults_witness:
  "fst (fit (scripted_env (perfect_at 2)) X4 y4 None (Some (PyInt 0))
          (smoteboost_init 1 5 1 1 (Some 0)) 7) = None
   \<and> estimator_weights (fst (snd (fit (scripted_env (perfect_at 2)) X4 y4 None (Some (PyInt 0))
          (smoteboost_init 1 5 1 1 (Some 0)) 7))) = Some [1, 1, 1, 0, 0]
   \<and> estimator_errors (fst (snd (fit (scripted_env (perfect_at 2)) X4 y4 None (Some (PyInt 0))
          (smoteboost_init 1 5 1 1 (Some 0)) 7))) = Some [1 / 4, 1 / 4, 0, 1, 1]
   \<and> fst (fit (scripted_env (stop_at 1)) X4 y4 None (Some (PyInt 0))
          (smoteboost_init 1 5 1 1 (Some 0)) 7) = None
   \<and> estimator_weights (fst (snd (fit (scripted_env (stop_at 1)) X4 y4 None (Some (PyInt 0))
          (smoteboost_init 1 5 1 1 (Some 0)) 7))) = Some [1, 0, 0, 0, 0]
   \<and> estimator_errors (fst (snd (fit (scripted_env (stop_at 1)) X4 y4 None (Some (PyInt 0))
          (smoteboost_init 1 5 1 1 (Some 0)) 7))) = Some [1 / 4, 1, 1, 1, 1]"
proof -
  let ?E = "scripted_env (perfect_at 2)"
  let ?F = "scripted_env (stop_at 1)"
  let ?self0 = "smoteboost_init 1 5 1 1 (Some 0) :: (brute_index, nat) smoteboost"
  let ?self2 = "?self0
              \<lparr>minority_target := Some (PyInt 0), fitted_estimators := Some [],
               estimator_weights := Some (replicate 5 0),
               estimator_errors := Some (replicate 5 1)\<rparr>"
  let ?s = "snd (smote_step ?E 1 (PyInt 0) after2)"
  let ?u = "snd (smote_step ?F 1 (PyInt 0) after1)"
  have five: "nat 5 = 5" by simp
  have a2: "est_weights after2 ! 0 = 1" "est_weights after2 ! 1 = 1"
    "est_errors after2 ! 0 = 1 / 4" "est_errors after2 ! 1 = 1 / 4"
    by (simp_all add: after2_def)
  have a1: "est_weights after1 ! 0 = 1" "est_errors after1 ! 0 = 1 / 4"
    by (simp_all add: after1_def)
  have l2: "Suc (Suc 0) < nat 5" and l1: "Suc 0 < nat 5" by simp_all
  from run4_smote_step2 have s: "smote_step ?E 1 (PyInt 0) after2 = (None, ?s)"
    by (metis prod.collapse)
  have bo: "boost ?E (Suc (Suc 0)) (X_cur ?s) (y_cur ?s) (sample_weight ?s)
              (estimators ?s, rnd ?s, np_state ?s)
            = (Inr (Step (sample_weight ?s) 1 0), estimators ?s @ [Suc (Suc 0)], rnd ?s,
               np_state ?s)"
    by (simp add: scripted_boost_result perfect_at_def)
  note inst = early_stop_keeps_defaults
    [where C = ?E and X = X4 and y = y4 and sw = None and mt = "Some (PyInt 0)"
       and self = ?self0 and g = 7 and ?self2.0 = ?self2
       and t = "PyInt 0" and ?st0.0 = "start4 1" and i = "Suc (Suc 0)" and st = after2
       and ?st1.0 = ?s and r = "Step (sample_weight ?s) 1 0"
       and es = "estimators ?s @ [Suc (Suc 0)]" and b = "rnd ?s" and g' = "np_state ?s"
       and w = "sample_weight ?s" and ew = 1,
     unfolded run4_parameters]
  from inst run4_prepare l2 run4_prefix2 s bo obtain ws er where
    r: "fit ?E X4 y4 None (Some (PyInt 0)) ?self0 7
          = (None, ?self2\<lparr>smote := sampler ?s,
                fitted_estimators := Some (estimators ?s @ [Suc (Suc 0)]),
                estimator_weights := Some ws, estimator_errors := Some er\<rparr>, np_state ?s)"
    and len: "length ws = nat 5" "length er = nat 5"
    and at: "ws ! Suc (Suc 0) = 1" "er ! Suc (Suc 0) = 0"
    and before: "\<forall>j. j < Suc (Suc 0)
                   \<longrightarrow> ws ! j = est_weights after2 ! j \<and> er ! j = est_errors after2 ! j"
    and after: "\<forall>j. Suc (Suc 0) < j \<and> j < nat 5 \<longrightarrow> ws ! j = 0 \<and> er ! j = 1"
    by blast
  from before a2 have b0: "ws ! 0 = 1" "ws ! 1 = 1" "er ! 0 = 1 / 4" "er ! 1 = 1 / 4"
    by simp_all
  from at have b2: "ws ! 2 = 1" "er ! 2 = 0" by (simp_all add: numeral_2_eq_2)
  from after have b3: "ws ! 3 = 0" "ws ! 4 = 0" "er ! 3 = 1" "er ! 4 = 1" by simp_all
  from len have "ws = [ws ! 0, ws ! 1, ws ! 2, ws ! 3, ws ! 4]"
    "er = [er ! 0, er ! 1, er ! 2, er ! 3, er ! 4]"
    by (simp_all only: five list_of_five)
  then have wse: "ws = [1, 1, 1, 0, 0]" "er = [1 / 4, 1 / 4, 0, 1, 1]"
    by (simp_all only: b0 b2 b3)
  from r have p1: "fst (fit ?E X4 y4 None (Some (PyInt 0)) ?self0 7) = None" by simp
  from r wse have p2: "estimator_weights (fst (snd (fit ?E X4 y4 None (Some (PyInt 0)) ?self0 7)))
                   = Some [1, 1, 1, 0, 0]" by simp
  from r wse have p3: "estimator_errors (fst (snd (fit ?E X4 y4 None (Some (PyInt 0)) ?self0 7)))
                   = Some [1 / 4, 1 / 4, 0, 1, 1]" by simp
  from stop4_smote_step1 have u: "smote_step ?F 1 (PyInt 0) after1 = (None, ?u)"
    by (metis prod.collapse)
  have bu: "boost ?F (Suc 0) (X_cur ?u) (y_cur ?u) (sample_weight ?u)
              (estimators ?u, rnd ?u, np_state ?u)
            = (Inr Stop, estimators ?u @ [Suc 0], rnd ?u, np_state ?u)"
    by (simp add: scripted_boost_result stop_at_def)
  note insu = early_stop_keeps_defaults
    [where C = ?F and X = X4 and y = y4 and sw = None and mt = "Some (PyInt 0)"
       and self = ?self0 and g = 7 and ?self2.0 = ?self2
       and t = "PyInt 0" and ?st0.0 = "start4 1" and i = "Suc 0" and st = after1
       and ?st1.0 = ?u and r = Stop
       and es = "estimators ?u @ [Suc 0]" and b = "rnd ?u" and g' = "np_state ?u",
     unfolded run4_parameters]
  from insu stop4_prepare l1 stop4_prefix1 u bu obtain vs fr where
    q: "fit ?F X4 y4 None (Some (PyInt 0)) ?self0 7
          = (None, ?self2\<lparr>smote := sampler ?u,
                fitted_estimators := Some (estimators ?u @ [Suc 0]),
                estimator_weights := Some vs, estimator_errors := Some fr\<rparr>, np_state ?u)"
    and lenu: "length vs = nat 5" "length fr = nat 5"
    and beforeu: "\<forall>j. j < Suc 0
                   \<longrightarrow> vs ! j = est_weights after1 ! j \<and> fr ! j = est_errors after1 ! j"
    and afteru: "\<forall>j. Suc 0 \<le> j \<and> j < nat 5 \<longrightarrow> vs ! j = 0 \<and> fr ! j = 1"
    by blast
  from beforeu a1 have c0: "vs ! 0 = 1" "fr ! 0 = 1 / 4" by simp_all
  from afteru have c1: "vs ! 1 = 0" "vs ! 2 = 0" "vs ! 3 = 0" "vs ! 4 = 0"
    "fr ! 1 = 1" "fr ! 2 = 1" "fr ! 3 = 1" "fr ! 4 = 1" by simp_all
  from lenu have "vs = [vs ! 0, vs ! 1, vs ! 2, vs ! 3, vs ! 4]"
    "fr = [fr ! 0, fr ! 1, fr ! 2, fr ! 3, fr ! 4]"
    by (simp_all only: five list_of_five)
  then have vse: "vs = [1, 0, 0, 0, 0]" "fr = [1 / 4, 1, 1, 1, 1]"
    by (simp_all only: c0 c1)
  from q have p4: "fst (fit ?F X4 y4 None (Some (PyInt 0)) ?self0 7) = None" by simp
  from q vse have p5: "estimator_weights (fst (snd (fit ?F X4 y4 None (Some (PyInt 0)) ?self0 7)))
                   = Some [1, 0, 0, 0, 0]" by simp
  from q vse have p6: "estimator_errors (fst (snd (fit ?F X4 y4 None (Some (PyInt 0)) ?self0 7)))
                   = Some [1 / 4, 1, 1, 1, 1]" by simp
  from p1 p2 p3 p4 p5 p6 show ?thesis by blast
qed

end
